theory Spec2Isabelle
  imports Complex_Main "HOL-Library.AList" "HOL-Library.Sublist"
begin

section \<open>Shared vocabulary: strings, thrown errors, log entries\<close>

text \<open>
  JavaScript strings are modelled as \<open>string\<close> (a list of characters); \<open>length\<close> is
  the string's \<open>.length\<close>. JavaScript numbers are modelled as exact rationals (\<open>rat\<close>):
  \<open>NaN\<close> and the infinities, which JSON cannot carry, and the rounding of doubles are
  left out. A function that may throw returns \<open>js_error + 'a\<close>, with \<open>Inl\<close> for
  the throw (or for the rejection of the promise of an async function): \<open>Error m\<close> is
  an \<open>Error\<close> instance with message \<open>m\<close>, \<open>SyntaxError\<close> is what \<open>JSON.parse\<close>
  throws, \<open>ZodError\<close> what a zod schema's \<open>parse\<close> throws, and \<open>RangeError\<close> what
  \<open>tls.connect\<close> throws for a port that is out of range.
\<close>

datatype js_error = Error string | SyntaxError | ZodError | RangeError

text \<open>
  What a promise of the database driver rejects with: an \<open>Error\<close> instance with its
  message, or some other value with what \<open>String(value)\<close> gives for it.
\<close>

datatype thrown = ErrorObject string | OtherValue string

text \<open>A JSON value, as \<open>JSON.parse\<close> gives it; an object holds each key once.\<close>

datatype json =
    JNull
  | JBool bool
  | JNum rat
  | JStr string
  | JArr "json list"
  | JObj "(string \<times> json) list"

text \<open>The value a JavaScript call evaluates to, where a claim depends on its kind.\<close>

datatype js_value = JsUndefined | JsBoolean bool

datatype log_level = Debug | Info | Warn | ErrorLevel

datatype log_value = LStr string | LNum rat | LImprecise | LMissing

record log_entry =
  level :: log_level
  bindings :: "(string \<times> log_value) list"
  msg :: string

definition logger :: "log_level \<Rightarrow> (string \<times> log_value) list \<Rightarrow> string \<Rightarrow> log_entry" where
  "logger l fs m = \<lparr>level = l, bindings = fs, msg = m\<rparr>"

section \<open>The in-memory session access data store (pam-session-memory-store.ts)\<close>

record TQueryCredentials =
  username :: string
  password :: string
  database :: string

record TSessionAccessData =
  relayHost :: string
  relayClientCert :: string
  relayClientKey :: string
  relayServerCertChain :: string
  gatewayClientCert :: string
  gatewayClientKey :: string
  gatewayServerCertChain :: string
  credentials :: TQueryCredentials

text \<open>
  \<open>private store = new Map<string, TSessionAccessData>()\<close>. A JavaScript \<open>Map\<close> keeps
  its keys in insertion order, holds each key once, and \<open>Map.set\<close> on a key that is
  present replaces the value in place: an association list with \<open>AList.update\<close> and
  \<open>AList.delete\<close>. Every method returns the new store, the log entries it wrote and
  its JavaScript result.
\<close>

type_synonym session_store = "(string \<times> TSessionAccessData) list"

definition Map_has :: "('k \<times> 'v) list \<Rightarrow> 'k \<Rightarrow> bool" where
  "Map_has m k = (case map_of m k of None \<Rightarrow> False | Some _ \<Rightarrow> True)"

text \<open>\<open>Map.prototype.delete\<close>: removes the key and returns whether it was present.\<close>

definition Map_delete :: "('k \<times> 'v) list \<Rightarrow> 'k \<Rightarrow> ('k \<times> 'v) list \<times> bool" where
  "Map_delete m k = (AList.delete k m, Map_has m k)"

definition SessionAccessDataStore_set ::
  "session_store \<Rightarrow> string \<Rightarrow> TSessionAccessData \<Rightarrow> session_store \<times> log_entry list" where
  "SessionAccessDataStore_set store sessionId data =
     (AList.update sessionId data store,
      [logger Info [(''sessionId'', LStr sessionId)] ''Stored session access data in memory''])"

definition SessionAccessDataStore_get ::
  "session_store \<Rightarrow> string \<Rightarrow> TSessionAccessData option" where
  "SessionAccessDataStore_get store sessionId = map_of store sessionId"

text \<open>
  \<open>delete(sessionId: string): void\<close>: the boolean of \<open>this.store.delete\<close> only decides
  whether the info entry is logged; the method has no \<open>return\<close> statement, so a call
  evaluates to \<open>undefined\<close>.
\<close>

definition SessionAccessDataStore_delete ::
  "session_store \<Rightarrow> string \<Rightarrow> session_store \<times> log_entry list \<times> js_value" where
  "SessionAccessDataStore_delete store sessionId =
     (let (store', deleted) = Map_delete store sessionId
      in (store',
          (if deleted
           then [logger Info [(''sessionId'', LStr sessionId)]
                   ''Deleted session access data from memory'']
           else []),
          JsUndefined))"

definition SessionAccessDataStore_has :: "session_store \<Rightarrow> string \<Rightarrow> bool" where
  "SessionAccessDataStore_has store sessionId = Map_has store sessionId"

definition SessionAccessDataStore_keys :: "session_store \<Rightarrow> string list" where
  "SessionAccessDataStore_keys store = map fst store"

definition SessionAccessDataStore_size :: "session_store \<Rightarrow> nat" where
  "SessionAccessDataStore_size store = length store"

definition SessionAccessDataStore_clear :: "session_store \<Rightarrow> session_store \<times> log_entry list" where
  "SessionAccessDataStore_clear store =
     ([], [logger Warn [(''count'', LNum (of_nat (length store)))]
             ''Cleared all session access data from memory''])"

section \<open>JavaScript string primitives used by the services\<close>

text \<open>\<open>s.split(":")\<close>: the segments between the colons; always at least one segment.\<close>

fun split_colon :: "string \<Rightarrow> string list" where
  "split_colon [] = [[]]"
| "split_colon (c # cs) =
     (if c = CHR '':'' then [] # split_colon cs
      else (case split_colon cs of
              [] \<Rightarrow> [[c]]
            | seg # segs \<Rightarrow> (c # seg) # segs))"

text \<open>
  \<open>parseInt(s, 10)\<close>, after ECMA-262: leading white space is skipped, one sign is
  read, then the longest run of decimal digits; an empty run gives \<open>NaN\<close> (here
  \<open>None\<close>), and whatever follows the digits is ignored. Characters are the code units
  below 256, so the white space is tab, line feed, vertical tab, form feed, carriage
  return, space and no-break space. The result is a double. Every integer up to 2 to
  the power 53 in magnitude is a double, so a digit run of at most that value gives
  exactly its value (\<open>Exact\<close>); a longer run gives the double that its value rounds
  to, or an infinity, which is not computed here (\<open>Imprecise\<close>). The sign of a
  zero is not kept.
\<close>

datatype js_number = Exact int | Imprecise

definition isWhiteSpace :: "char \<Rightarrow> bool" where
  "isWhiteSpace c = ((of_char c :: nat) \<in> {9, 10, 11, 12, 13, 32, 160})"

definition isDigit :: "char \<Rightarrow> bool" where
  "isDigit c = (48 \<le> (of_char c :: nat) \<and> (of_char c :: nat) \<le> 57)"

definition digitsValue :: "string \<Rightarrow> nat" where
  "digitsValue ds = foldl (\<lambda>a c. 10 * a + ((of_char c :: nat) - 48)) 0 ds"

definition parseInt10 :: "string \<Rightarrow> js_number option" where
  "parseInt10 s =
     (let S = dropWhile isWhiteSpace s;
          sign = (case S of c # _ \<Rightarrow> if c = CHR ''-'' then - 1 else 1 | [] \<Rightarrow> (1::int));
          S' = (case S of c # r \<Rightarrow> if c = CHR ''-'' \<or> c = CHR ''+'' then r else S | [] \<Rightarrow> S);
          Z = takeWhile isDigit S'
      in if Z = [] then None
         else if digitsValue Z \<le> 2 ^ 53 then Some (Exact (sign * int (digitsValue Z)))
         else Some Imprecise)"

text \<open>Template-literal interpolation of a number: the decimal numeral of an integer.\<close>

fun String_nat :: "nat \<Rightarrow> string" where
  "String_nat n =
     (if n < 10 then [char_of (48 + n)]
      else String_nat (n div 10) @ [char_of (48 + n mod 10)])"

definition String_int :: "int \<Rightarrow> string" where
  "String_int i = (if i < 0 then CHR ''-'' # String_nat (nat (- i)) else String_nat (nat i))"

section \<open>TLS connections (relay-connection-service.ts, gateway-connection-service.ts)\<close>

text \<open>
  The options of a \<open>tls.connect\<close> call are recorded as the code passes them;
  \<open>socket\<close> is the transport the connection runs over (absent for a direct connection).
\<close>

record 's tls_options =
  socket :: "'s option"
  host :: "string option"
  port :: "js_number option"
  cert :: string
  key :: string
  ca :: string
  servername :: string
  ALPNProtocols :: "string list"
  minVersion :: string
  maxVersion :: "string option"
  rejectUnauthorized :: bool

text \<open>
  What the network and the peer do with a connection attempt: the handshake runs to
  its end (with the outcome of verifying the peer's certificate against \<open>ca\<close>, and
  what was negotiated), a transport error occurs, nothing happens within the 10
  seconds, or \<open>tls.connect\<close> cannot even set the connection up and throws.
\<close>

record peer_handshake =
  verifyError :: "string option"
  negotiatedAlpn :: "string option"
  negotiatedProtocol :: "string option"
  negotiatedCipher :: "string option"

datatype tls_network =
    HandshakeDone peer_handshake
  | NetworkError string
  | NoAnswer
  | SetupThrows string

text \<open>
  What the code sees of it: the first event that settles the promise it awaits, or
  the exception of the call. \<open>secureConnect\<close> comes with what the socket then reports.
\<close>

record tls_info =
  authorized :: bool
  authorizationError :: "string option"
  alpnProtocol :: "string option"
  getProtocol :: "string option"
  getCipher :: "string option"

datatype tls_outcome =
    SecureConnect tls_info
  | ErrorEvent string
  | TimeoutEvent
  | ConnectThrows js_error

text \<open>
  \<open>tls.connect\<close> of Node, between the two: with \<open>rejectUnauthorized: true\<close> a peer
  whose certificate does not verify never gets to \<open>secureConnect\<close>; the socket is
  destroyed with the verification error, which the code receives as its \<open>error\<close>
  event. Without the option the handshake completes and the socket reports
  \<open>authorized = false\<close>.
\<close>

definition tls_connect :: "'s tls_options \<Rightarrow> tls_network \<Rightarrow> tls_outcome" where
  "tls_connect opts net =
     (case net of
        HandshakeDone h \<Rightarrow>
          (case verifyError h of
             None \<Rightarrow>
               SecureConnect \<lparr>authorized = True, authorizationError = None,
                               alpnProtocol = negotiatedAlpn h,
                               getProtocol = negotiatedProtocol h,
                               getCipher = negotiatedCipher h\<rparr>
           | Some m \<Rightarrow>
               if rejectUnauthorized opts then ErrorEvent m
               else SecureConnect \<lparr>authorized = False, authorizationError = Some m,
                                    alpnProtocol = negotiatedAlpn h,
                                    getProtocol = negotiatedProtocol h,
                                    getCipher = negotiatedCipher h\<rparr>)
      | NetworkError m \<Rightarrow> ErrorEvent m
      | NoAnswer \<Rightarrow> TimeoutEvent
      | SetupThrows m \<Rightarrow> ConnectThrows (Error m))"

text \<open>An established socket: its options, what it reports, and its idle timeout in ms.\<close>

record 's tls_socket =
  options :: "'s tls_options"
  info :: tls_info
  idleTimeout :: nat

type_synonym relay_socket = "unit tls_socket"
type_synonym gateway_socket = "relay_socket tls_socket"

text \<open>\<open>x || d\<close> on an optional string: \<open>undefined\<close>, \<open>null\<close>, \<open>false\<close> and
  the empty string all give \<open>d\<close>.\<close>

definition or_default :: "string option \<Rightarrow> string \<Rightarrow> string" where
  "or_default x d = (case x of None \<Rightarrow> d | Some s \<Rightarrow> if s = [] then d else s)"

definition log_opt :: "string option \<Rightarrow> log_value" where
  "log_opt x = (case x of None \<Rightarrow> LMissing | Some s \<Rightarrow> LStr s)"

definition log_number :: "js_number \<Rightarrow> log_value" where
  "log_number n = (case n of Exact i \<Rightarrow> LNum (of_int i) | Imprecise \<Rightarrow> LImprecise)"

record TRelayConnectionConfig =
  cfg_relayHost :: string
  cfg_relayClientCert :: string
  cfg_relayClientKey :: string
  cfg_relayServerCertChain :: string

text \<open>
  Lines 26 to 39 of \<open>createRelayConnection\<close>: host and port from \<open>relayHost\<close>. With a
  colon in the string, \<open>split\<close> gives at least two segments, so \<open>parts[1]\<close> is there.
\<close>

definition parseRelayHost :: "string \<Rightarrow> js_error + (string \<times> js_number)" where
  "parseRelayHost rh =
     (if CHR '':'' \<in> set rh then
        (let parts = split_colon rh;
             h = parts ! 0;
             parsedPort = parseInt10 (parts ! 1)
         in case parsedPort of
              None \<Rightarrow> Inl (Error (''Invalid port in relay host: '' @ rh))
            | Some p \<Rightarrow> Inr (h, p))
      else Inr (rh, Exact 8443))"

text \<open>The listener \<open>relayConn.once("error", ...)\<close>: its log entry and its rejection.\<close>

definition relay_error_entry :: "(string \<times> log_value) list \<Rightarrow> string \<Rightarrow> log_entry" where
  "relay_error_entry hp m =
     logger ErrorLevel (hp @ [(''error'', LStr m)]) ''Relay TLS connection error''"

text \<open>
  The result of a connection function: the \<open>tls.connect\<close> calls it made, the log
  entries it wrote, and the rejection or the socket. For a direct connection
  \<open>tls.connect\<close> checks the port first: a call with a port that is not an integer
  from 0 to 65535 throws a \<open>RangeError\<close> at once, before anything is sent.
\<close>

definition createRelayConnection ::
  "TRelayConnectionConfig \<Rightarrow> (unit tls_options \<Rightarrow> tls_network) \<Rightarrow>
     unit tls_options list \<times> log_entry list \<times> (js_error + relay_socket)" where
  "createRelayConnection config net =
     (case parseRelayHost (cfg_relayHost config) of
        Inl e \<Rightarrow> ([], [], Inl e)
      | Inr (h, p) \<Rightarrow>
         (let opts = \<lparr>socket = None, host = Some h, port = Some p,
                       cert = cfg_relayClientCert config, key = cfg_relayClientKey config,
                       ca = cfg_relayServerCertChain config, servername = h,
                       ALPNProtocols = [], minVersion = ''TLSv1.2'', maxVersion = None,
                       rejectUnauthorized = True\<rparr>;
              hp = [(''host'', LStr h), (''port'', log_number p)];
              l0 = [logger Debug hp ''Creating relay TLS connection'']
          in case p of
               Imprecise \<Rightarrow> ([opts], l0, Inl RangeError)
             | Exact n \<Rightarrow>
                 if n < 0 \<or> 65535 < n then ([opts], l0, Inl RangeError)
                 else
                  (case tls_connect opts (net opts) of
                     ConnectThrows e \<Rightarrow> ([opts], l0, Inl e)
                   | SecureConnect i \<Rightarrow>
                       (if \<not> authorized i then
                          ([opts], l0,
                           Inl (Error (''Relay TLS connection not authorized: '' @
                                       or_default (authorizationError i) ''Unknown error'')))
                        else
                          ([opts],
                           l0 @ [logger Info (hp @ [(''protocol'', log_opt (getProtocol i)),
                                                     (''cipher'', log_opt (getCipher i))])
                                   ''Relay TLS connection established''],
                           Inr \<lparr>options = opts, info = i, idleTimeout = 0\<rparr>))
                   | ErrorEvent m \<Rightarrow>
                       ([opts], l0 @ [relay_error_entry hp m],
                        Inl (Error (''Failed to connect to relay: '' @ m)))
                   | TimeoutEvent \<Rightarrow>
                       ([opts], l0,
                        Inl (Error (''Relay connection timeout after 10 seconds ('' @ h @ '':'' @
                                    String_int n @ '')''))))))"

record TGatewayConnectionConfig =
  cfg_gatewayClientCert :: string
  cfg_gatewayClientKey :: string
  cfg_gatewayServerCertChain :: string

definition ALPN_PAM_PROXY :: string where
  "ALPN_PAM_PROXY = ''infisical-pam-proxy''"

text \<open>The object given to \<open>tls.connect\<close> in \<open>createGatewayConnection\<close>.\<close>

definition gatewayTlsOptions ::
  "relay_socket \<Rightarrow> TGatewayConnectionConfig \<Rightarrow> relay_socket tls_options" where
  "gatewayTlsOptions relayConn config =
     \<lparr>socket = Some relayConn, host = None, port = None,
      cert = cfg_gatewayClientCert config, key = cfg_gatewayClientKey config,
      ca = cfg_gatewayServerCertChain config, servername = ''localhost'',
      ALPNProtocols = [ALPN_PAM_PROXY], minVersion = ''TLSv1.2'',
      maxVersion = Some ''TLSv1.3'', rejectUnauthorized = True\<rparr>"

text \<open>The listener \<open>gatewayConn.once("error", ...)\<close>: its log entry.\<close>

definition gateway_error_entry :: "string \<Rightarrow> log_entry" where
  "gateway_error_entry m = logger ErrorLevel [(''error'', LStr m)] ''Gateway mTLS connection error''"

definition createGatewayConnection ::
  "relay_socket \<Rightarrow> TGatewayConnectionConfig \<Rightarrow> (relay_socket tls_options \<Rightarrow> tls_network) \<Rightarrow>
     relay_socket tls_options list \<times> log_entry list \<times> (js_error + gateway_socket)" where
  "createGatewayConnection relayConn config net =
     (let opts = gatewayTlsOptions relayConn config;
          l0 = [logger Debug [] ''Creating gateway mTLS connection over relay'']
      in case tls_connect opts (net opts) of
           ConnectThrows e \<Rightarrow> ([opts], l0, Inl e)
         | SecureConnect i \<Rightarrow>
             (if \<not> authorized i then
                ([opts], l0,
                 Inl (Error (''Gateway mTLS connection not authorized: '' @
                             or_default (authorizationError i) ''Unknown error'')))
              else if alpnProtocol i \<noteq> Some ALPN_PAM_PROXY then
                ([opts], l0,
                 Inl (Error (''Gateway ALPN protocol mismatch: expected '' @ [CHR 0x27] @
                             ALPN_PAM_PROXY @ [CHR 0x27] @ '', got '' @ [CHR 0x27] @
                             or_default (alpnProtocol i) ''none'' @ [CHR 0x27])))
              else
                ([opts],
                 l0 @ [logger Info [(''protocol'', log_opt (getProtocol i)),
                                    (''cipher'', log_opt (getCipher i)),
                                    (''alpn'', log_opt (alpnProtocol i))]
                         ''Gateway mTLS connection established''],
                 Inr \<lparr>options = opts, info = i, idleTimeout = 0\<rparr>))
         | ErrorEvent m \<Rightarrow>
             ([opts], l0 @ [gateway_error_entry m],
              Inl (Error (''Failed to connect to gateway: '' @ m)))
         | TimeoutEvent \<Rightarrow>
             ([opts], l0, Inl (Error ''Gateway mTLS connection timeout after 10 seconds'')))"

section \<open>Query execution through the gateway (pam-query-execution-service.ts)\<close>

record TQueryOptions =
  maxRows :: "rat option"
  timeout :: "rat option"

record TField =
  fieldName :: string
  dataType :: rat

record TQueryResult =
  qr_rows :: "json list"
  qr_rowCount :: nat
  qr_fields :: "TField list"
  qr_executionTime :: int

text \<open>
  What \<open>await sql.unsafe(query)\<close> resolves to: the array of rows, with the driver's
  \<open>count\<close> and \<open>columns\<close> properties, either of which may be missing.
\<close>

record column =
  col_name :: string
  col_type :: rat

record driver_result =
  res_rows :: "json list"
  res_count :: "nat option"
  res_columns :: "column list option"

text \<open>
  The environment of one execution: how \<open>sql.unsafe(query)\<close> settles, whether
  \<open>sql.end\<close> rejects, and the two readings of \<open>Date.now()\<close>.
\<close>

record pg_env =
  unsafe_outcome :: "thrown + driver_result"
  end_outcome :: "thrown option"
  now_start :: int
  now_end :: int

record postgres_options =
  pg_socket :: "gateway_socket option"
  pg_database :: string
  pg_username :: string
  pg_password :: string
  pg_ssl :: bool
  pg_max_lifetime :: int
  pg_idle_timeout :: int
  pg_max :: nat

text \<open>\<open>ToIntegerOrInfinity\<close>: truncation towards zero.\<close>

definition ToInteger :: "rat \<Rightarrow> int" where
  "ToInteger x = (if x < 0 then \<lceil>x\<rceil> else \<lfloor>x\<rfloor>)"

text \<open>\<open>xs.slice(0, e)\<close>: a negative end counts from the end of the array.\<close>

definition Array_slice0 :: "'a list \<Rightarrow> rat \<Rightarrow> 'a list" where
  "Array_slice0 xs e =
     (let len = int (length xs);
          relativeEnd = ToInteger e;
          final = (if relativeEnd < 0 then max (len + relativeEnd) 0 else min relativeEnd len)
      in take (nat final) xs)"

text \<open>\<open>s.substring(0, n)\<close> for a natural number \<open>n\<close>.\<close>

definition substring0 :: "string \<Rightarrow> nat \<Rightarrow> string" where
  "substring0 s n = take n s"

text \<open>\<open>error instanceof Error ? error.message : String(error)\<close>.\<close>

fun error_message :: "thrown \<Rightarrow> string" where
  "error_message (ErrorObject m) = m"
| "error_message (OtherValue v) = v"

text \<open>
  \<open>const { maxRows = 1000, timeout = 30000 } = options\<close>, with \<open>options = {}\<close> when
  the argument is missing: a default stands in for a property that is \<open>undefined\<close>.
\<close>

definition options_maxRows :: "TQueryOptions option \<Rightarrow> rat" where
  "options_maxRows opts =
     (case opts of None \<Rightarrow> 1000
      | Some ob \<Rightarrow> (case maxRows ob of None \<Rightarrow> 1000 | Some n \<Rightarrow> n))"

definition options_timeout :: "TQueryOptions option \<Rightarrow> rat" where
  "options_timeout opts =
     (case opts of None \<Rightarrow> 30000
      | Some ob \<Rightarrow> (case timeout ob of None \<Rightarrow> 30000 | Some n \<Rightarrow> n))"

text \<open>The function up to its \<open>await sql.unsafe(query)\<close>: the first log entries and the client.\<close>

definition executeQuery_start ::
  "gateway_socket option \<Rightarrow> string \<Rightarrow> TQueryCredentials \<Rightarrow> TQueryOptions option \<Rightarrow>
     postgres_options \<times> log_entry list" where
  "executeQuery_start gatewayConn qry creds opts =
     (let mr = options_maxRows opts;
          tmo = options_timeout opts
      in (\<lparr>pg_socket = gatewayConn, pg_database = database creds,
            pg_username = username creds, pg_password = password creds, pg_ssl = False,
            pg_max_lifetime = \<lceil>tmo / 1000\<rceil>, pg_idle_timeout = \<lceil>tmo / 1000\<rceil>, pg_max = 1\<rparr>,
          [logger Info [(''database'', LStr (database creds)),
                        (''username'', LStr (username creds)),
                        (''queryLength'', LNum (of_nat (length qry))),
                        (''maxRows'', LNum mr), (''timeout'', LNum tmo)]
             ''Executing query through gateway'',
           logger Info [] ''PostgreSQL client connected through gateway'']))"

text \<open>The \<open>finally\<close> block: the client is closed, a failure to do so is logged and dropped.\<close>

definition executeQuery_finally :: "pg_env \<Rightarrow> log_entry list" where
  "executeQuery_finally env =
     (case end_outcome env of
        None \<Rightarrow> [logger Debug [] ''PostgreSQL client disconnected'']
      | Some endError \<Rightarrow>
          [logger Warn [(''error'', LStr (error_message endError))]
             ''Failed to cleanly disconnect PostgreSQL client''])"

text \<open>The function from the moment \<open>sql.unsafe(query)\<close> settles.\<close>

definition executeQuery_settle ::
  "string \<Rightarrow> TQueryCredentials \<Rightarrow> TQueryOptions option \<Rightarrow> pg_env \<Rightarrow>
     log_entry list \<times> (js_error + TQueryResult)" where
  "executeQuery_settle qry creds opts env =
     (let mr = options_maxRows opts
      in case unsafe_outcome env of
           Inr result \<Rightarrow>
             (let executionTime = now_end env - now_start env;
                  columns = (case res_columns result of None \<Rightarrow> [] | Some cs \<Rightarrow> cs);
                  rowCount = (case res_count result of
                                None \<Rightarrow> length (res_rows result)
                              | Some c \<Rightarrow> c)
              in ([logger Info [(''database'', LStr (database creds)),
                                (''rowCount'', LNum (of_nat rowCount)),
                                (''executionTime'', LNum (of_int executionTime)),
                                (''fieldCount'', LNum (of_nat (length columns)))]
                     ''Query executed successfully'']
                  @ executeQuery_finally env,
                  Inr \<lparr>qr_rows = Array_slice0 (res_rows result) mr,
                       qr_rowCount = rowCount,
                       qr_fields = map (\<lambda>c. \<lparr>fieldName = col_name c, dataType = col_type c\<rparr>) columns,
                       qr_executionTime = executionTime\<rparr>))
         | Inl err \<Rightarrow>
             ([logger ErrorLevel [(''database'', LStr (database creds)),
                                  (''error'', LStr (error_message err)),
                                  (''queryPreview'', LStr (substring0 qry 100))]
                 ''Query execution failed'']
              @ executeQuery_finally env,
              Inl (Error (''Query execution failed: '' @ error_message err))))"

definition executeQueryThroughGateway ::
  "gateway_socket option \<Rightarrow> string \<Rightarrow> TQueryCredentials \<Rightarrow> TQueryOptions option \<Rightarrow> pg_env \<Rightarrow>
     postgres_options \<times> log_entry list \<times> (js_error + TQueryResult)" where
  "executeQueryThroughGateway gatewayConn qry creds opts env =
     (let (client, l1) = executeQuery_start gatewayConn qry creds opts;
          (l2, r) = executeQuery_settle qry creds opts env
      in (client, l1 @ l2, r))"

section \<open>The session WebSocket channel (registerPamSessionRouter, route \<open>/:sessionId/ws\<close>)\<close>

subsection \<open>The message schema\<close>

record WebSocketMessage =
  msg_query :: string
  msg_options :: "TQueryOptions option"

text \<open>\<open>z.number().min(lo).max(hi).optional()\<close> on the key \<open>k\<close> of an object.\<close>

definition zod_optional_number ::
  "(string \<times> json) list \<Rightarrow> string \<Rightarrow> rat \<Rightarrow> rat \<Rightarrow> js_error + rat option" where
  "zod_optional_number ob k lo hi =
     (case map_of ob k of
        None \<Rightarrow> Inr None
      | Some (JNum n) \<Rightarrow> if lo \<le> n \<and> n \<le> hi then Inr (Some n) else Inl ZodError
      | Some _ \<Rightarrow> Inl ZodError)"

definition zod_options :: "(string \<times> json) list \<Rightarrow> js_error + TQueryOptions option" where
  "zod_options ob =
     (case map_of ob ''options'' of
        None \<Rightarrow> Inr None
      | Some (JObj oo) \<Rightarrow>
          (case zod_optional_number oo ''maxRows'' 1 10000 of
             Inl e \<Rightarrow> Inl e
           | Inr mr \<Rightarrow>
               (case zod_optional_number oo ''timeout'' 1000 120000 of
                  Inl e \<Rightarrow> Inl e
                | Inr t \<Rightarrow> Inr (Some \<lparr>maxRows = mr, timeout = t\<rparr>)))
      | Some _ \<Rightarrow> Inl ZodError)"

text \<open>\<open>WebSocketMessageSchema.parse\<close>; keys the schema does not name are dropped.\<close>

definition WebSocketMessageSchema_parse :: "json \<Rightarrow> js_error + WebSocketMessage" where
  "WebSocketMessageSchema_parse parsed =
     (case parsed of
        JObj ob \<Rightarrow>
          (if map_of ob ''type'' = Some (JStr ''execute_query'') then
             (case map_of ob ''query'' of
                Some (JStr q) \<Rightarrow>
                  (if 1 \<le> length q \<and> length q \<le> 10000 then
                     (case zod_options ob of
                        Inl e \<Rightarrow> Inl e
                      | Inr opts \<Rightarrow> Inr \<lparr>msg_query = q, msg_options = opts\<rparr>)
                   else Inl ZodError)
              | _ \<Rightarrow> Inl ZodError)
           else Inl ZodError)
      | _ \<Rightarrow> Inl ZodError)"

subsection \<open>Establishing the channel\<close>

text \<open>
  Modelled from the spec: the enum \<open>PamSessionStatus\<close> is declared in a file that is
  not at hand. The handler names its members \<open>Ended\<close> and \<open>Terminated\<close>; the spec
  speaks of sessions that are ended or terminated. Every other member is \<open>OtherStatus\<close>.
\<close>

datatype PamSessionStatus = Ended | Terminated | OtherStatus string

record session_info =
  status :: PamSessionStatus
  expiresAt :: "int option"
  projectId :: string

text \<open>
  The collaborators of the handler: the session lookup, the clock, whether the
  permission grants reading PAM sessions, the two TLS peers, and the user lookup.
\<close>

record open_env =
  env_getById :: "js_error + session_info"
  env_now :: int
  env_can_read :: "js_error + bool"
  env_relay_tls :: "unit tls_options \<Rightarrow> tls_network"
  env_gateway_tls :: "relay_socket tls_options \<Rightarrow> tls_network"
  env_findById :: "js_error option"

text \<open>
  What goes out on the WebSocket: \<open>socket.send(JSON.stringify(v))\<close> is recorded as
  the JSON value \<open>v\<close> the peer reads back, \<open>socket.close(code, reason)\<close> as a close
  frame.
\<close>

datatype ws_frame = Send json | CloseFrame nat string

datatype leg = GatewayLeg | RelayLeg

text \<open>
  The state the two registered handlers close over and act on: the connections, the
  frames sent so far, the executions that were started and whose \<open>sql.unsafe\<close> has
  not settled, the \<open>end()\<close> calls the close handler made on the two legs in call
  order, the errors that escaped (a rejected handler promise, an \<open>error\<close> event
  nobody listens to), and the log. Two facts about the sockets belong to it as well:
  whether the gateway socket has been ended, and which of the two sockets still has
  the \<open>once("error")\<close> listener that its connection function registered; a listener
  stays registered after the handshake, until the first \<open>error\<close> event of its socket.
\<close>

record channel =
  ch_sessionId :: string
  ch_accessData :: TSessionAccessData
  ch_relayConn :: "relay_socket option"
  ch_gatewayConn :: "gateway_socket option"
  ch_gatewayEnded :: bool
  ch_errorListeners :: "leg list"
  ch_frames :: "ws_frame list"
  ch_executing :: "WebSocketMessage list"
  ch_endCalls :: "leg list"
  ch_escaped :: "js_error list"
  ch_logs :: "log_entry list"

datatype open_outcome =
    ClosedWith nat string
  | HandlerRejected "ws_frame list" js_error
  | Established channel

definition connected_message :: json where
  "connected_message =
     JObj [(''type'', JStr ''connected''), (''message'', JStr ''WebSocket connection established'')]"

definition openChannel :: "string \<Rightarrow> session_store \<Rightarrow> open_env \<Rightarrow> open_outcome" where
  "openChannel sessionId store env =
     (case env_getById env of
        Inl e \<Rightarrow> HandlerRejected [] e
      | Inr session \<Rightarrow>
         if status session = Ended \<or> status session = Terminated then
           ClosedWith 4404 ''Session has ended''
         else if (case expiresAt session of None \<Rightarrow> False | Some t \<Rightarrow> t < env_now env) then
           ClosedWith 4404 ''Session has expired''
         else
          (case env_can_read env of
             Inl e \<Rightarrow> HandlerRejected [] e
           | Inr can \<Rightarrow>
              if \<not> can then ClosedWith 4403 ''Forbidden: No permission to access session''
              else
               (case SessionAccessDataStore_get store sessionId of
                  None \<Rightarrow> ClosedWith 4404 ''Session data not found or expired''
                | Some accessData \<Rightarrow>
                   (case createRelayConnection
                           \<lparr>cfg_relayHost = relayHost accessData,
                            cfg_relayClientCert = relayClientCert accessData,
                            cfg_relayClientKey = relayClientKey accessData,
                            cfg_relayServerCertChain = relayServerCertChain accessData\<rparr>
                           (env_relay_tls env) of
                      (_, _, Inl e) \<Rightarrow> HandlerRejected [] e
                    | (_, l1, Inr relayConn) \<Rightarrow>
                       (case createGatewayConnection relayConn
                               \<lparr>cfg_gatewayClientCert = gatewayClientCert accessData,
                                cfg_gatewayClientKey = gatewayClientKey accessData,
                                cfg_gatewayServerCertChain = gatewayServerCertChain accessData\<rparr>
                               (env_gateway_tls env) of
                          (_, _, Inl e) \<Rightarrow> HandlerRejected [] e
                        | (_, l2, Inr gatewayConn) \<Rightarrow>
                           (case env_findById env of
                              Some e \<Rightarrow> HandlerRejected [Send connected_message] e
                            | None \<Rightarrow>
                                Established
                                  \<lparr>ch_sessionId = sessionId, ch_accessData = accessData,
                                   ch_relayConn = Some relayConn,
                                   ch_gatewayConn = Some gatewayConn,
                                   ch_gatewayEnded = False,
                                   ch_errorListeners = [RelayLeg, GatewayLeg],
                                   ch_frames = [Send connected_message],
                                   ch_executing = [], ch_endCalls = [], ch_escaped = [],
                                   ch_logs = l1 @ l2\<rparr>))))))"

subsection \<open>The message handler\<close>

definition TQueryResult_json :: "TQueryResult \<Rightarrow> json" where
  "TQueryResult_json r =
     JObj [(''rows'', JArr (qr_rows r)),
           (''rowCount'', JNum (of_nat (qr_rowCount r))),
           (''fields'', JArr (map (\<lambda>f. JObj [(''name'', JStr (fieldName f)),
                                               (''dataType'', JNum (dataType f))])
                                  (qr_fields r))),
           (''executionTime'', JNum (of_int (qr_executionTime r)))]"

definition query_result_message :: "TQueryResult \<Rightarrow> json" where
  "query_result_message results =
     JObj [(''type'', JStr ''query_result''), (''data'', TQueryResult_json results)]"

text \<open>
  The text of an incoming message is given by what \<open>JSON.parse\<close> makes of it:
  \<open>None\<close> when it throws. The first two statements of the handler:
\<close>

definition message_validate :: "json option \<Rightarrow> js_error + WebSocketMessage" where
  "message_validate data =
     (case data of
        None \<Rightarrow> Inl SyntaxError
      | Some parsed \<Rightarrow> WebSocketMessageSchema_parse parsed)"

text \<open>
  The driver behind one message: how the database answers over a socket that is still
  open, and what \<open>sql.unsafe\<close> rejects with when the socket its client was given has
  been ended before. Every call of \<open>executeQueryThroughGateway\<close> makes a new client
  of the postgres driver on the one \<open>gatewayConn\<close> of the channel, and closes it in
  its \<open>finally\<close> block with \<open>sql.end\<close>; the driver ends the socket of a client it
  closes (the comment next to \<open>sql.end\<close> in the source expects otherwise). So the
  gateway socket is ended once a call has run to its end, and a call that is made
  after that is rejected by the driver.
\<close>

record driver_env =
  on_open_socket :: pg_env
  on_ended_socket :: thrown

definition driver_outcome :: "channel \<Rightarrow> driver_env \<Rightarrow> pg_env" where
  "driver_outcome ch env =
     (if ch_gatewayEnded ch
      then (on_open_socket env)\<lparr>unsafe_outcome := Inl (on_ended_socket env)\<rparr>
      else on_open_socket env)"

text \<open>
  The handler run from the message to its end, when no other message arrives in
  between. It has no \<open>try\<close>: whatever is thrown rejects the handler's promise, which
  nobody awaits. Its \<open>console.log\<close> of the validated message is not recorded.
\<close>

definition on_message :: "channel \<Rightarrow> json option \<Rightarrow> driver_env \<Rightarrow> channel" where
  "on_message ch data env =
     (case message_validate data of
        Inl e \<Rightarrow> ch\<lparr>ch_escaped := ch_escaped ch @ [e]\<rparr>
      | Inr validated \<Rightarrow>
          (let (client, l, r) =
                 executeQueryThroughGateway (ch_gatewayConn ch) (msg_query validated)
                   (credentials (ch_accessData ch)) (msg_options validated)
                   (driver_outcome ch env);
               ch' = ch\<lparr>ch_logs := ch_logs ch @ l, ch_gatewayEnded := True\<rparr>
           in case r of
                Inl e \<Rightarrow> ch'\<lparr>ch_escaped := ch_escaped ch' @ [e]\<rparr>
              | Inr results \<Rightarrow>
                  ch'\<lparr>ch_frames := ch_frames ch' @ [Send (query_result_message results)]\<rparr>))"

text \<open>
  The arrival of a message as the event loop runs it. The handler is an async
  function: when the message arrives it runs up to \<open>await sql.unsafe(query)\<close>, and
  the next message is handled while it waits. What becomes of executions that overlap
  on the one socket is the driver's and the gateway's affair and is not modelled.
\<close>

definition on_message_start :: "channel \<Rightarrow> json option \<Rightarrow> channel" where
  "on_message_start ch data =
     (case message_validate data of
        Inl e \<Rightarrow> ch\<lparr>ch_escaped := ch_escaped ch @ [e]\<rparr>
      | Inr validated \<Rightarrow>
          (let (client, l) =
                 executeQuery_start (ch_gatewayConn ch) (msg_query validated)
                   (credentials (ch_accessData ch)) (msg_options validated)
           in ch\<lparr>ch_executing := ch_executing ch @ [validated],
                 ch_logs := ch_logs ch @ l\<rparr>))"

subsection \<open>The close handler and the sockets' error events\<close>

text \<open>
  The two connections are sockets of \<open>tls.connect\<close>. Their \<open>end()\<close> does not throw:
  a failure of closing is reported afterwards, as the \<open>error\<close> event of the socket.
  So the handler runs through: the log entry, and \<open>end()\<close> on each connection it has.
\<close>

definition on_close :: "channel \<Rightarrow> channel" where
  "on_close ch =
     (let ch0 = ch\<lparr>ch_logs := ch_logs ch @
                  [logger Info [(''sessionId'', LStr (ch_sessionId ch))]
                     ''WebSocket connection closed'']\<rparr>;
          ch1 = (case ch_gatewayConn ch0 of
                   Some g \<Rightarrow> ch0\<lparr>ch_endCalls := ch_endCalls ch0 @ [GatewayLeg],
                                    ch_gatewayEnded := True\<rparr>
                 | None \<Rightarrow> ch0)
      in case ch_relayConn ch1 of
           Some r \<Rightarrow> ch1\<lparr>ch_endCalls := ch_endCalls ch1 @ [RelayLeg]\<rparr>
         | None \<Rightarrow> ch1)"

text \<open>
  The log entry of the \<open>once("error")\<close> listener of a leg; the relay's entry carries
  the host and the port the connection was made to. The listener's \<open>reject\<close> has no
  effect on a promise that is settled.
\<close>

definition error_entry :: "channel \<Rightarrow> leg \<Rightarrow> string \<Rightarrow> log_entry" where
  "error_entry ch l m =
     (case l of
        GatewayLeg \<Rightarrow> gateway_error_entry m
      | RelayLeg \<Rightarrow>
          relay_error_entry
            (case ch_relayConn ch of
               None \<Rightarrow> []
             | Some r \<Rightarrow>
                 [(''host'', log_opt (host (options r))),
                  (''port'', (case port (options r) of
                                None \<Rightarrow> LMissing
                              | Some p \<Rightarrow> log_number p))])
            m)"

text \<open>
  An \<open>error\<close> event on the socket of a leg: the listener logs it and is gone (it was
  registered with \<open>once\<close>); an \<open>error\<close> event that has no listener is thrown.
\<close>

definition socket_error :: "channel \<Rightarrow> leg \<Rightarrow> string \<Rightarrow> channel" where
  "socket_error ch l m =
     (if l \<in> set (ch_errorListeners ch)
      then ch\<lparr>ch_errorListeners := removeAll l (ch_errorListeners ch),
               ch_logs := ch_logs ch @ [error_entry ch l m]\<rparr>
      else ch\<lparr>ch_escaped := ch_escaped ch @ [Error m]\<rparr>)"

subsection \<open>The channel as the event loop drives it\<close>

text \<open>
  A message arrives; the WebSocket closes, where \<open>end_fails\<close> says for each leg
  whether closing it fails and with what message (reported as that socket's \<open>error\<close>
  event once the close handler has returned); a socket reports an error at some
  other time.
\<close>

datatype event =
    Message "json option"
  | SocketClose "leg \<Rightarrow> string option"
  | SocketError leg string

definition report_end_failure :: "channel \<Rightarrow> (leg \<Rightarrow> string option) \<Rightarrow> leg \<Rightarrow> channel" where
  "report_end_failure ch end_fails l =
     (case end_fails l of
        None \<Rightarrow> ch
      | Some m \<Rightarrow> if l \<in> set (ch_endCalls ch) then socket_error ch l m else ch)"

fun step :: "channel \<Rightarrow> event \<Rightarrow> channel" where
  "step ch (Message data) = on_message_start ch data"
| "step ch (SocketClose end_fails) =
     report_end_failure (report_end_failure (on_close ch) end_fails GatewayLeg) end_fails RelayLeg"
| "step ch (SocketError l m) = socket_error ch l m"

definition run :: "channel \<Rightarrow> event list \<Rightarrow> channel" where
  "run ch evs = foldl step ch evs"

section \<open>The client hook \<open>usePamWebSocket\<close>\<close>

datatype ConnectionStatus = Disconnected | Connecting | Connected | Reconnecting

datatype ReadyState = CONNECTING | OPEN | CLOSING | CLOSED

text \<open>
  The hook's React state and refs, and the browser objects it holds: every
  \<open>WebSocket\<close> it created (a socket is its index in \<open>sockets\<close>), what was sent on
  them, the timers that are pending (identifier and delay in ms), the delay of every
  \<open>setTimeout\<close> call in call order (a timer's identifier is its index there), and the
  console. \<open>null\<close> is \<open>JNull\<close> for the two results and \<open>None\<close> for the refs.
\<close>

record hook =
  connectionStatus :: ConnectionStatus
  lastResult :: json
  lastError :: json
  isExecuting :: bool
  wsRef :: "nat option"
  reconnectAttemptsRef :: nat
  reconnectTimeoutRef :: "nat option"
  shouldReconnectRef :: bool
  sockets :: "ReadyState list"
  outbox :: "(nat \<times> json) list"
  timers :: "(nat \<times> nat) list"
  setTimeoutCalls :: "nat list"
  console :: "string list"

definition MAX_RECONNECT_ATTEMPTS :: nat where
  "MAX_RECONNECT_ATTEMPTS = 5"

definition INITIAL_RECONNECT_DELAY :: nat where
  "INITIAL_RECONNECT_DELAY = 1000"

definition MAX_RECONNECT_DELAY :: nat where
  "MAX_RECONNECT_DELAY = 30000"

definition initial_hook :: hook where
  "initial_hook =
     \<lparr>connectionStatus = Disconnected, lastResult = JNull, lastError = JNull,
      isExecuting = False, wsRef = None, reconnectAttemptsRef = 0,
      reconnectTimeoutRef = None, shouldReconnectRef = True, sockets = [], outbox = [],
      timers = [], setTimeoutCalls = [], console = []\<rparr>"

text \<open>JavaScript truthiness of a JSON value, and \<open>x || d\<close> on a property that may be missing.\<close>

fun truthy :: "json \<Rightarrow> bool" where
  "truthy JNull = False"
| "truthy (JBool b) = b"
| "truthy (JNum n) = (n \<noteq> 0)"
| "truthy (JStr t) = (t \<noteq> [])"
| "truthy (JArr _) = True"
| "truthy (JObj _) = True"

definition js_or :: "json option \<Rightarrow> json \<Rightarrow> json" where
  "js_or x d = (case x of None \<Rightarrow> d | Some v \<Rightarrow> if truthy v then v else d)"

definition readyState :: "hook \<Rightarrow> nat \<Rightarrow> ReadyState option" where
  "readyState s i = (if i < length (sockets s) then Some (sockets s ! i) else None)"

text \<open>\<open>ws.close()\<close>: a socket that is connecting or open starts closing.\<close>

definition ws_close :: "hook \<Rightarrow> nat \<Rightarrow> hook" where
  "ws_close s i =
     (if readyState s i = Some CONNECTING \<or> readyState s i = Some OPEN
      then s\<lparr>sockets := (sockets s)[i := CLOSING]\<rparr> else s)"

text \<open>
  What \<open>connect\<close> reads from outside: the stored token, and whether the
  \<open>WebSocket\<close> constructor throws.
\<close>

record connect_env =
  getAuthToken :: "string option"
  WebSocket_throws :: bool

definition connect :: "hook \<Rightarrow> connect_env \<Rightarrow> hook" where
  "connect s env =
     (if (case wsRef s of None \<Rightarrow> False | Some i \<Rightarrow> readyState s i = Some OPEN) then s
      else
        (let s1 = s\<lparr>connectionStatus := Connecting\<rparr>
         in if (case getAuthToken env of None \<Rightarrow> True | Some t \<Rightarrow> t = []) then
              s1\<lparr>console := console s1 @ [''No authentication token found''],
                 connectionStatus := Disconnected\<rparr>
            else if WebSocket_throws env then
              s1\<lparr>console := console s1 @ [''Failed to create WebSocket:''],
                 connectionStatus := Disconnected\<rparr>
            else
              s1\<lparr>sockets := sockets s1 @ [CONNECTING],
                 wsRef := Some (length (sockets s1))\<rparr>))"

definition ws_onopen :: "hook \<Rightarrow> hook" where
  "ws_onopen s = s\<lparr>connectionStatus := Connected, reconnectAttemptsRef := 0\<rparr>"

text \<open>The \<open>switch\<close> on \<open>message.type\<close>, for the socket \<open>i\<close> the handler belongs to.\<close>

definition ws_onmessage_switch :: "hook \<Rightarrow> nat \<Rightarrow> (string \<times> json) list \<Rightarrow> hook" where
  "ws_onmessage_switch s i message =
     (let t = map_of message ''type'' in
      if t = Some (JStr ''connected'') then s\<lparr>connectionStatus := Connected\<rparr>
      else if t = Some (JStr ''query_result'') then
        s\<lparr>lastResult := js_or (map_of message ''data'') JNull,
          lastError := JNull,
          isExecuting := False\<rparr>
      else if t = Some (JStr ''query_error'') then
        s\<lparr>lastError := js_or (map_of message ''error'')
                           (JObj [(''message'', JStr ''Unknown error'')]),
          lastResult := JNull,
          isExecuting := False\<rparr>
      else if t = Some (JStr ''session_expired'') then
        ws_close
          (s\<lparr>lastError := JObj [(''message'',
                                  js_or (map_of message ''message'') (JStr ''Session expired''))],
             isExecuting := False,
             shouldReconnectRef := False\<rparr>) i
      else s\<lparr>console := console s @ [''Unknown message type:'']\<rparr>)"

text \<open>
  \<open>ws.onmessage\<close>: \<open>event.data\<close> is given by what \<open>JSON.parse\<close> makes of it
  (\<open>None\<close> when it throws). Reading \<open>.type\<close> of \<open>null\<close> throws as well; of any other
  value that is not an object it gives \<open>undefined\<close>. The \<open>catch\<close> writes to the console.
\<close>

definition ws_onmessage :: "hook \<Rightarrow> nat \<Rightarrow> json option \<Rightarrow> hook" where
  "ws_onmessage s i data =
     (case data of
        None \<Rightarrow> s\<lparr>console := console s @ [''Failed to parse WebSocket message:'']\<rparr>
      | Some JNull \<Rightarrow> s\<lparr>console := console s @ [''Failed to parse WebSocket message:'']\<rparr>
      | Some (JObj message) \<Rightarrow> ws_onmessage_switch s i message
      | Some _ \<Rightarrow> ws_onmessage_switch s i [])"

definition ws_onerror :: "hook \<Rightarrow> hook" where
  "ws_onerror s = s\<lparr>console := console s @ [''WebSocket error:''],
                     connectionStatus := Disconnected\<rparr>"

definition ws_onclose :: "hook \<Rightarrow> hook" where
  "ws_onclose s =
     (let s1 = s\<lparr>connectionStatus := Disconnected, wsRef := None\<rparr>
      in if shouldReconnectRef s1 \<and> reconnectAttemptsRef s1 < MAX_RECONNECT_ATTEMPTS then
           (let delay = min (INITIAL_RECONNECT_DELAY * 2 ^ reconnectAttemptsRef s1)
                            MAX_RECONNECT_DELAY;
                tid = length (setTimeoutCalls s1)
            in s1\<lparr>connectionStatus := Reconnecting,
                  reconnectTimeoutRef := Some tid,
                  timers := timers s1 @ [(tid, delay)],
                  setTimeoutCalls := setTimeoutCalls s1 @ [delay]\<rparr>)
         else s1)"

text \<open>The callback given to \<open>setTimeout\<close>.\<close>

definition reconnect_callback :: "hook \<Rightarrow> connect_env \<Rightarrow> hook" where
  "reconnect_callback s env = connect (s\<lparr>reconnectAttemptsRef := reconnectAttemptsRef s + 1\<rparr>) env"

definition executeQuery :: "hook \<Rightarrow> string \<Rightarrow> rat option \<Rightarrow> hook" where
  "executeQuery s qry optMaxRows =
     (case wsRef s of
        None \<Rightarrow> s\<lparr>lastError := JObj [(''message'', JStr ''WebSocket not connected'')]\<rparr>
      | Some i \<Rightarrow>
          if readyState s i \<noteq> Some OPEN then
            s\<lparr>lastError := JObj [(''message'', JStr ''WebSocket not connected'')]\<rparr>
          else
            s\<lparr>isExecuting := True, lastError := JNull, lastResult := JNull,
              outbox := outbox s @
                [(i, JObj [(''type'', JStr ''execute_query''), (''query'', JStr qry),
                           (''options'',
                            JObj [(''maxRows'',
                                   JNum (case optMaxRows of
                                           None \<Rightarrow> 1000
                                         | Some n \<Rightarrow> if n = 0 then 1000 else n))])])]\<rparr>)"

text \<open>The effect that connects on mount, and its cleanup.\<close>

definition mount :: "hook \<Rightarrow> bool \<Rightarrow> connect_env \<Rightarrow> hook" where
  "mount s user env = (if \<not> user then s else connect (s\<lparr>shouldReconnectRef := True\<rparr>) env)"

definition clearTimeout :: "hook \<Rightarrow> nat \<Rightarrow> hook" where
  "clearTimeout s tid = s\<lparr>timers := filter (\<lambda>t. fst t \<noteq> tid) (timers s)\<rparr>"

definition cleanup :: "hook \<Rightarrow> hook" where
  "cleanup s =
     (let s1 = s\<lparr>shouldReconnectRef := False\<rparr>;
          s2 = (case reconnectTimeoutRef s1 of None \<Rightarrow> s1 | Some tid \<Rightarrow> clearTimeout s1 tid)
      in case wsRef s2 of None \<Rightarrow> s2 | Some i \<Rightarrow> ws_close s2 i)"

text \<open>
  The events the browser delivers to the hook. A socket's \<open>readyState\<close> changes
  before its handler runs; a timer fires once, if it is still pending.
\<close>

datatype hook_event =
    Mount bool connect_env
  | Unmount
  | OnOpen nat
  | OnMessage nat "json option"
  | OnError nat
  | OnClose nat
  | TimerFires nat connect_env
  | ExecuteQuery string "rat option"

fun hook_step :: "hook \<Rightarrow> hook_event \<Rightarrow> hook" where
  "hook_step s (Mount user env) = mount s user env"
| "hook_step s Unmount = cleanup s"
| "hook_step s (OnOpen i) =
     (if i < length (sockets s) then ws_onopen (s\<lparr>sockets := (sockets s)[i := OPEN]\<rparr>) else s)"
| "hook_step s (OnMessage i data) =
     (if i < length (sockets s) then ws_onmessage s i data else s)"
| "hook_step s (OnError i) = (if i < length (sockets s) then ws_onerror s else s)"
| "hook_step s (OnClose i) =
     (if i < length (sockets s) then ws_onclose (s\<lparr>sockets := (sockets s)[i := CLOSED]\<rparr>) else s)"
| "hook_step s (TimerFires tid env) =
     (if tid \<in> set (map fst (timers s)) then reconnect_callback (clearTimeout s tid) env else s)"
| "hook_step s (ExecuteQuery qry optMaxRows) = executeQuery s qry optMaxRows"

definition hook_run :: "hook \<Rightarrow> hook_event list \<Rightarrow> hook" where
  "hook_run s evs = foldl hook_step s evs"

text \<open>A bundle and a store used at concrete inputs.\<close>

definition bundle0 :: TSessionAccessData where
  "bundle0 = \<lparr>relayHost = ''relay.internal:8443'', relayClientCert = ''rc'',
     relayClientKey = ''rk'', relayServerCertChain = ''rca'', gatewayClientCert = ''gc'',
     gatewayClientKey = ''gk'', gatewayServerCertChain = ''gca'',
     credentials = \<lparr>username = ''alice'', password = ''s3cret'', database = ''appdb''\<rparr>\<rparr>"

definition tok :: connect_env where
  "tok = \<lparr>getAuthToken = Some ''jwt'', WebSocket_throws = False\<rparr>"

text \<open>
  The hook mounts, and the first connection and each of the five reconnections fail:
  the browser reports \<open>error\<close> and then \<open>close\<close> on the socket, and the pending
  timer fires.
\<close>

definition failing_trace :: "hook_event list" where
  "failing_trace =
     [Mount True tok, OnError 0, OnClose 0,
      TimerFires 0 tok, OnError 1, OnClose 1,
      TimerFires 1 tok, OnError 2, OnClose 2,
      TimerFires 2 tok, OnError 3, OnClose 3,
      TimerFires 3 tok, OnError 4, OnClose 4,
      TimerFires 4 tok, OnError 5, OnClose 5]"

text \<open>
  The spec's words for the port segment of a relay address, "a valid integer": an
  optional sign followed by one or more decimal digits, and nothing else. The code has
  no such predicate; this one is only there to compare the code against.
\<close>

definition spec_valid_integer :: "string \<Rightarrow> bool" where
  "spec_valid_integer seg =
     (let ds = (case seg of c # r \<Rightarrow> if c = CHR ''-'' \<or> c = CHR ''+'' then r else seg | [] \<Rightarrow> seg)
      in ds \<noteq> [] \<and> list_all isDigit ds)"

definition ok_info :: tls_info where
  "ok_info = \<lparr>authorized = True, authorizationError = None,
     alpnProtocol = Some ''infisical-pam-proxy'', getProtocol = Some ''TLSv1.3'',
     getCipher = Some ''TLS_AES_256_GCM_SHA384''\<rparr>"

text \<open>
  A peer that presents a trusted certificate and negotiates the PAM proxy protocol,
  and a peer whose certificate does not verify.
\<close>

definition ok_handshake :: peer_handshake where
  "ok_handshake = \<lparr>verifyError = None, negotiatedAlpn = Some ''infisical-pam-proxy'',
     negotiatedProtocol = Some ''TLSv1.3'', negotiatedCipher = Some ''TLS_AES_256_GCM_SHA384''\<rparr>"

definition untrusted_handshake :: peer_handshake where
  "untrusted_handshake = \<lparr>verifyError = Some ''self-signed certificate'', negotiatedAlpn = None,
     negotiatedProtocol = Some ''TLSv1.3'', negotiatedCipher = Some ''TLS_AES_256_GCM_SHA384''\<rparr>"

definition relay_cfg :: "string \<Rightarrow> TRelayConnectionConfig" where
  "relay_cfg rh = \<lparr>cfg_relayHost = rh, cfg_relayClientCert = ''rc'', cfg_relayClientKey = ''rk'',
     cfg_relayServerCertChain = ''rca''\<rparr>"

definition relay0 :: relay_socket where
  "relay0 = \<lparr>options = \<lparr>socket = None, host = Some ''relay.internal'', port = Some (Exact 8443),
       cert = ''rc'', key = ''rk'', ca = ''rca'', servername = ''relay.internal'',
       ALPNProtocols = [], minVersion = ''TLSv1.2'', maxVersion = None,
       rejectUnauthorized = True\<rparr>,
     info = ok_info\<lparr>alpnProtocol := None\<rparr>, idleTimeout = 0\<rparr>"

definition gateway_cfg :: TGatewayConnectionConfig where
  "gateway_cfg = \<lparr>cfg_gatewayClientCert = ''gc'', cfg_gatewayClientKey = ''gk'',
     cfg_gatewayServerCertChain = ''gca''\<rparr>"

definition gateway0 :: gateway_socket where
  "gateway0 = \<lparr>options = \<lparr>socket = Some relay0, host = None, port = None,
       cert = ''gc'', key = ''gk'', ca = ''gca'', servername = ''localhost'',
       ALPNProtocols = [''infisical-pam-proxy''], minVersion = ''TLSv1.2'',
       maxVersion = Some ''TLSv1.3'', rejectUnauthorized = True\<rparr>,
     info = ok_info, idleTimeout = 0\<rparr>"

definition creds0 :: TQueryCredentials where
  "creds0 = \<lparr>username = ''alice'', password = ''s3cret'', database = ''appdb''\<rparr>"

text \<open>An \<open>UPDATE\<close> that changes three rows and returns none.\<close>

definition update_env :: pg_env where
  "update_env = \<lparr>unsafe_outcome = Inr \<lparr>res_rows = [], res_count = Some 3, res_columns = None\<rparr>,
     end_outcome = None, now_start = 100, now_end = 107\<rparr>"

text \<open>A \<open>SELECT\<close> that returns three rows.\<close>

definition select_env :: pg_env where
  "select_env =
     \<lparr>unsafe_outcome = Inr \<lparr>res_rows = [JObj [(''n'', JNum 1)], JObj [(''n'', JNum 2)],
                                          JObj [(''n'', JNum 3)]],
                              res_count = Some 3,
                              res_columns = Some [\<lparr>col_name = ''n'', col_type = 23\<rparr>]\<rparr>,
      end_outcome = None, now_start = 100, now_end = 107\<rparr>"

text \<open>The database rejects the login; its message names the user.\<close>

definition auth_failure_env :: pg_env where
  "auth_failure_env =
     \<lparr>unsafe_outcome = Inl (ErrorObject ''password authentication failed for user alice''),
      end_outcome = None, now_start = 100, now_end = 107\<rparr>"

text \<open>\<open>s.includes(t)\<close>: \<open>t\<close> occurs in \<open>s\<close> as a run of consecutive characters.\<close>

definition String_includes :: "string \<Rightarrow> string \<Rightarrow> bool" where
  "String_includes s t = sublist t s"

definition store0 :: session_store where
  "store0 = [(''s1'', bundle0)]"

text \<open>
  An active session whose caller may read it, a relay and a gateway that complete their
  handshakes, and the channel that \<open>openChannel\<close> establishes from them.
\<close>

definition open_env0 :: open_env where
  "open_env0 =
     \<lparr>env_getById = Inr \<lparr>status = OtherStatus ''active'', expiresAt = None, projectId = ''p1''\<rparr>,
      env_now = 1000, env_can_read = Inr True,
      env_relay_tls = (\<lambda>_. HandshakeDone (ok_handshake\<lparr>negotiatedAlpn := None\<rparr>)),
      env_gateway_tls = (\<lambda>_. HandshakeDone ok_handshake),
      env_findById = None\<rparr>"

definition channel0 :: channel where
  "channel0 =
     \<lparr>ch_sessionId = ''s1'', ch_accessData = bundle0, ch_relayConn = Some relay0,
      ch_gatewayConn = Some gateway0, ch_gatewayEnded = False,
      ch_errorListeners = [RelayLeg, GatewayLeg], ch_frames = [Send connected_message],
      ch_executing = [], ch_endCalls = [], ch_escaped = [],
      ch_logs =
        [logger Debug [(''host'', LStr ''relay.internal''), (''port'', LNum 8443)]
           ''Creating relay TLS connection'',
         logger Info [(''host'', LStr ''relay.internal''), (''port'', LNum 8443),
                      (''protocol'', LStr ''TLSv1.3''),
                      (''cipher'', LStr ''TLS_AES_256_GCM_SHA384'')]
           ''Relay TLS connection established'',
         logger Debug [] ''Creating gateway mTLS connection over relay'',
         logger Info [(''protocol'', LStr ''TLSv1.3''),
                      (''cipher'', LStr ''TLS_AES_256_GCM_SHA384''),
                      (''alpn'', LStr ''infisical-pam-proxy'')]
           ''Gateway mTLS connection established'']\<rparr>"

text \<open>Messages of the client: a statement with a typing mistake, and two valid ones.\<close>

definition msg_seleC :: "json option" where
  "msg_seleC = Some (JObj [(''type'', JStr ''execute_query''), (''query'', JStr ''SELEC 1'')])"

definition msg_select1 :: "json option" where
  "msg_select1 = Some (JObj [(''type'', JStr ''execute_query''), (''query'', JStr ''SELECT 1'')])"

definition msg_select2 :: "json option" where
  "msg_select2 =
     Some (JObj [(''type'', JStr ''execute_query''), (''query'', JStr ''SELECT 2''),
                 (''options'', JObj [(''maxRows'', JNum 10)])])"

text \<open>The database finds a syntax error in the statement.\<close>

definition syntax_error_env :: driver_env where
  "syntax_error_env =
     \<lparr>on_open_socket =
        \<lparr>unsafe_outcome = Inl (ErrorObject ''syntax error at or near SELEC''),
         end_outcome = None, now_start = 200, now_end = 203\<rparr>,
      on_ended_socket = ErrorObject ''write CONNECTION_ENDED''\<rparr>"


section \<open>Properties of the session store\<close>

lemma Map_has_iff: "Map_has m k \<longleftrightarrow> map_of m k \<noteq> None"
  by (simp add: Map_has_def split: option.splits)

text \<open>
  Claim C7, as stated, fails: \<open>delete\<close> is declared \<open>void\<close> and returns \<open>undefined\<close>,
  not a boolean. For a store that holds a bundle for \<open>s1\<close>, the call does not evaluate
  to the boolean \<open>true\<close>.
\<close>

theorem C7_counterexample:
  "SessionAccessDataStore_has [(''s1'', bundle0)] ''s1'' \<and>
   snd (snd (SessionAccessDataStore_delete [(''s1'', bundle0)] ''s1'')) \<noteq> JsBoolean True"
  by (simp add: SessionAccessDataStore_has_def SessionAccessDataStore_delete_def
      Map_delete_def Map_has_def)

text \<open>
  Claim C7, amended: \<open>delete(id)\<close> returns nothing (\<open>undefined\<close>); it removes the bundle
  of \<open>id\<close> and leaves every other entry as it was, it writes its info log entry exactly
  when a bundle for \<open>id\<close> was present before the call, and after it \<open>get(id)\<close> returns
  absent.
\<close>

theorem C7_delete_amended:
  "SessionAccessDataStore_delete store sid = (store', logs, r) \<Longrightarrow>
     r = JsUndefined \<and>
     SessionAccessDataStore_get store' sid = None \<and>
     \<not> SessionAccessDataStore_has store' sid \<and>
     (logs \<noteq> [] \<longleftrightarrow> SessionAccessDataStore_has store sid) \<and>
     (\<forall>k. k \<noteq> sid \<longrightarrow> SessionAccessDataStore_get store' k = SessionAccessDataStore_get store k)"
  by (auto simp add: SessionAccessDataStore_delete_def SessionAccessDataStore_get_def
      SessionAccessDataStore_has_def Map_delete_def Map_has_iff delete_conv'
      split: if_splits)

theorem C7_delete_amended_witness:
  "SessionAccessDataStore_delete [(''s1'', bundle0), (''s2'', bundle0)] ''s1''
     = ([(''s2'', bundle0)],
        [logger Info [(''sessionId'', LStr ''s1'')] ''Deleted session access data from memory''],
        JsUndefined) \<and>
   SessionAccessDataStore_get [(''s2'', bundle0)] ''s1'' = None \<and>
   SessionAccessDataStore_get [(''s2'', bundle0)] ''s2'' = Some bundle0"
proof -
  have e: "SessionAccessDataStore_delete [(''s1'', bundle0), (''s2'', bundle0)] ''s1''
     = ([(''s2'', bundle0)],
        [logger Info [(''sessionId'', LStr ''s1'')] ''Deleted session access data from memory''],
        JsUndefined)"
    by (simp add: SessionAccessDataStore_delete_def Map_delete_def Map_has_def)
  from C7_delete_amended [OF e] e show ?thesis
    by (simp add: SessionAccessDataStore_get_def)
qed

section \<open>Properties of the client hook\<close>

lemmas hook_defs = hook_run_def initial_hook_def tok_def mount_def connect_def readyState_def
  ws_onerror_def ws_onclose_def reconnect_callback_def clearTimeout_def ws_onopen_def
  MAX_RECONNECT_ATTEMPTS_def INITIAL_RECONNECT_DELAY_def MAX_RECONNECT_DELAY_def

lemma backoff_delay: "k < 5 \<Longrightarrow> min (1000 * 2 ^ k) (30000::nat) = 1000 * 2 ^ k"
proof -
  assume "k < 5"
  then have "(2::nat) ^ k \<le> 2 ^ 4" by (intro power_increasing) auto
  then show ?thesis by simp
qed

lemma ws_onclose_schedules:
  assumes "shouldReconnectRef s" "reconnectAttemptsRef s < 5"
  shows "connectionStatus (ws_onclose s) = Reconnecting"
    and "setTimeoutCalls (ws_onclose s) = setTimeoutCalls s @ [1000 * 2 ^ reconnectAttemptsRef s]"
    and "timers (ws_onclose s) = timers s @ [(length (setTimeoutCalls s), 1000 * 2 ^ reconnectAttemptsRef s)]"
    and "reconnectAttemptsRef (ws_onclose s) = reconnectAttemptsRef s"
  using assms backoff_delay [of "reconnectAttemptsRef s"]
  by (simp_all add: ws_onclose_def Let_def MAX_RECONNECT_ATTEMPTS_def
      INITIAL_RECONNECT_DELAY_def MAX_RECONNECT_DELAY_def)

lemma ws_onclose_gives_up:
  assumes "5 \<le> reconnectAttemptsRef s"
  shows "connectionStatus (ws_onclose s) = Disconnected"
    and "setTimeoutCalls (ws_onclose s) = setTimeoutCalls s"
    and "timers (ws_onclose s) = timers s"
    and "wsRef (ws_onclose s) = None"
  using assms by (simp_all add: ws_onclose_def Let_def MAX_RECONNECT_ATTEMPTS_def)

lemma reconnect_callback_counts:
  "reconnectAttemptsRef (reconnect_callback s env) = reconnectAttemptsRef s + 1"
  by (simp add: reconnect_callback_def connect_def Let_def split: option.splits)

lemma failing_trace_run:
  "hook_run initial_hook failing_trace =
     \<lparr>connectionStatus = Disconnected, lastResult = JNull, lastError = JNull,
      isExecuting = False, wsRef = None, reconnectAttemptsRef = 5,
      reconnectTimeoutRef = Some 4, shouldReconnectRef = True,
      sockets = [CLOSED, CLOSED, CLOSED, CLOSED, CLOSED, CLOSED], outbox = [],
      timers = [], setTimeoutCalls = [1000, 2000, 4000, 8000, 16000],
      console = [''WebSocket error:'', ''WebSocket error:'', ''WebSocket error:'',
                 ''WebSocket error:'', ''WebSocket error:'', ''WebSocket error:'']\<rparr>"
  unfolding failing_trace_def by (simp add: hook_defs)

text \<open>
  Claim C4. The attempt number is \<open>reconnectAttemptsRef\<close>: it is 0 when the hook
  mounts, each fired reconnect timer adds one to it, and a successful connect (the
  socket's \<open>open\<close>) resets it to 0. While reconnecting is enabled, a close at attempt
  number \<open>k < 5\<close> sets the status to reconnecting and schedules one reconnect after
  \<open>min (1000 * 2 ^ k) 30000\<close> ms, which for \<open>k\<close> = 0 to 4 is 1000, 2000, 4000, 8000
  and 16000 ms; a close at attempt number 5 or more (five reconnects have failed in a
  row) schedules nothing and leaves the status disconnected. Run from the mount with
  every connection failing, the hook makes exactly these five \<open>setTimeout\<close> calls and
  ends disconnected with no timer pending.
\<close>

theorem C4_reconnect_backoff:
  "(shouldReconnectRef s \<and> reconnectAttemptsRef s < 5 \<longrightarrow>
      connectionStatus (ws_onclose s) = Reconnecting \<and>
      setTimeoutCalls (ws_onclose s) =
        setTimeoutCalls s @ [min (1000 * 2 ^ reconnectAttemptsRef s) 30000] \<and>
      timers (ws_onclose s) =
        timers s @ [(length (setTimeoutCalls s), min (1000 * 2 ^ reconnectAttemptsRef s) 30000)]) \<and>
   map (\<lambda>k. min (1000 * 2 ^ k) 30000) [0, 1, 2, 3, 4] = [1000, 2000, 4000, 8000, 16000 :: nat] \<and>
   (5 \<le> reconnectAttemptsRef s \<longrightarrow>
      connectionStatus (ws_onclose s) = Disconnected \<and>
      setTimeoutCalls (ws_onclose s) = setTimeoutCalls s \<and>
      timers (ws_onclose s) = timers s) \<and>
   reconnectAttemptsRef (reconnect_callback s env) = reconnectAttemptsRef s + 1 \<and>
   reconnectAttemptsRef (ws_onopen s) = 0 \<and>
   connectionStatus (ws_onopen s) = Connected \<and>
   setTimeoutCalls (hook_run initial_hook failing_trace) = [1000, 2000, 4000, 8000, 16000] \<and>
   timers (hook_run initial_hook failing_trace) = [] \<and>
   connectionStatus (hook_run initial_hook failing_trace) = Disconnected"
proof -
  have a: "shouldReconnectRef s \<and> reconnectAttemptsRef s < 5 \<longrightarrow>
      connectionStatus (ws_onclose s) = Reconnecting \<and>
      setTimeoutCalls (ws_onclose s) =
        setTimeoutCalls s @ [min (1000 * 2 ^ reconnectAttemptsRef s) 30000] \<and>
      timers (ws_onclose s) =
        timers s @ [(length (setTimeoutCalls s), min (1000 * 2 ^ reconnectAttemptsRef s) 30000)]"
    using ws_onclose_schedules [of s] backoff_delay [of "reconnectAttemptsRef s"] by simp
  have b: "map (\<lambda>k. min (1000 * 2 ^ k) 30000) [0, 1, 2, 3, 4] = [1000, 2000, 4000, 8000, 16000 :: nat]"
    by simp
  have c: "5 \<le> reconnectAttemptsRef s \<longrightarrow>
      connectionStatus (ws_onclose s) = Disconnected \<and>
      setTimeoutCalls (ws_onclose s) = setTimeoutCalls s \<and>
      timers (ws_onclose s) = timers s"
    using ws_onclose_gives_up [of s] by simp
  have d: "reconnectAttemptsRef (ws_onopen s) = 0" "connectionStatus (ws_onopen s) = Connected"
    by (simp_all add: ws_onopen_def)
  show ?thesis
    using a b c d reconnect_callback_counts [of s env] by (simp only: failing_trace_run simp_thms hook.simps) 
qed

theorem C4_reconnect_backoff_witness:
  "connectionStatus (ws_onclose (initial_hook\<lparr>reconnectAttemptsRef := 4\<rparr>)) = Reconnecting \<and>
   setTimeoutCalls (ws_onclose (initial_hook\<lparr>reconnectAttemptsRef := 4\<rparr>)) = [16000] \<and>
   timers (ws_onclose (initial_hook\<lparr>reconnectAttemptsRef := 4\<rparr>)) = [(0, 16000)] \<and>
   connectionStatus (ws_onclose (initial_hook\<lparr>reconnectAttemptsRef := 5\<rparr>)) = Disconnected \<and>
   setTimeoutCalls (ws_onclose (initial_hook\<lparr>reconnectAttemptsRef := 5\<rparr>)) = [] \<and>
   timers (ws_onclose (initial_hook\<lparr>reconnectAttemptsRef := 5\<rparr>)) = []"
  using C4_reconnect_backoff [of "initial_hook\<lparr>reconnectAttemptsRef := 4\<rparr>" tok]
        C4_reconnect_backoff [of "initial_hook\<lparr>reconnectAttemptsRef := 5\<rparr>" tok]
  by (simp add: initial_hook_def)

lemma js_or_not_null: "d \<noteq> JNull \<Longrightarrow> js_or x d \<noteq> JNull"
  by (auto simp add: js_or_def split: option.splits)

lemma ws_onmessage_query_result:
  "map_of message ''type'' = Some (JStr ''query_result'') \<Longrightarrow>
   ws_onmessage s i (Some (JObj message)) =
     s\<lparr>lastResult := js_or (map_of message ''data'') JNull, lastError := JNull,
       isExecuting := False\<rparr>"
  by (simp add: ws_onmessage_def ws_onmessage_switch_def)

lemma ws_onmessage_query_error:
  "map_of message ''type'' = Some (JStr ''query_error'') \<Longrightarrow>
   ws_onmessage s i (Some (JObj message)) =
     s\<lparr>lastError := js_or (map_of message ''error'') (JObj [(''message'', JStr ''Unknown error'')]),
       lastResult := JNull, isExecuting := False\<rparr>"
  by (simp add: ws_onmessage_def ws_onmessage_switch_def)

text \<open>
  Claim C10. Processing a \<open>query_result\<close> message sets \<open>lastResult\<close> to the message's
  \<open>data\<close> (\<open>message.data || null\<close>: the payload itself whenever it is an object, as
  the one the server sends is) and \<open>lastError\<close> to \<open>null\<close>; processing a
  \<open>query_error\<close> message sets \<open>lastError\<close> to the message's \<open>error\<close> (or to the
  "Unknown error" object), never to \<open>null\<close>, and \<open>lastResult\<close> to \<open>null\<close>.
\<close>

theorem C10_outcome_replaces_previous:
  "(map_of message ''type'' = Some (JStr ''query_result'') \<longrightarrow>
      lastResult (ws_onmessage s i (Some (JObj message))) = js_or (map_of message ''data'') JNull \<and>
      lastError (ws_onmessage s i (Some (JObj message))) = JNull) \<and>
   (map_of message ''type'' = Some (JStr ''query_result'') \<and>
    map_of message ''data'' = Some (JObj payload) \<longrightarrow>
      lastResult (ws_onmessage s i (Some (JObj message))) = JObj payload) \<and>
   (map_of message ''type'' = Some (JStr ''query_error'') \<longrightarrow>
      lastError (ws_onmessage s i (Some (JObj message))) =
        js_or (map_of message ''error'') (JObj [(''message'', JStr ''Unknown error'')]) \<and>
      lastError (ws_onmessage s i (Some (JObj message))) \<noteq> JNull \<and>
      lastResult (ws_onmessage s i (Some (JObj message))) = JNull) \<and>
   lastResult (ws_onmessage s i (Some (query_result_message results))) = TQueryResult_json results \<and>
   lastError (ws_onmessage s i (Some (query_result_message results))) = JNull"
proof -
  have r: "map_of message ''type'' = Some (JStr ''query_result'') \<longrightarrow>
      lastResult (ws_onmessage s i (Some (JObj message))) = js_or (map_of message ''data'') JNull \<and>
      lastError (ws_onmessage s i (Some (JObj message))) = JNull"
    by (simp add: ws_onmessage_query_result)
  have p: "map_of message ''type'' = Some (JStr ''query_result'') \<and>
    map_of message ''data'' = Some (JObj payload) \<longrightarrow>
      lastResult (ws_onmessage s i (Some (JObj message))) = JObj payload"
    by (simp add: ws_onmessage_query_result js_or_def)
  have e: "map_of message ''type'' = Some (JStr ''query_error'') \<longrightarrow>
      lastError (ws_onmessage s i (Some (JObj message))) =
        js_or (map_of message ''error'') (JObj [(''message'', JStr ''Unknown error'')]) \<and>
      lastError (ws_onmessage s i (Some (JObj message))) \<noteq> JNull \<and>
      lastResult (ws_onmessage s i (Some (JObj message))) = JNull"
    by (simp add: ws_onmessage_query_error js_or_not_null)
  have q: "lastResult (ws_onmessage s i (Some (query_result_message results))) = TQueryResult_json results"
      "lastError (ws_onmessage s i (Some (query_result_message results))) = JNull"
    by (simp_all add: query_result_message_def ws_onmessage_query_result js_or_def TQueryResult_json_def)
  from r p e q show ?thesis by blast
qed

theorem C10_outcome_replaces_previous_witness:
  "lastResult (ws_onmessage (initial_hook\<lparr>lastError := JObj [(''message'', JStr ''boom'')]\<rparr>) 0
      (Some (JObj [(''type'', JStr ''query_result''), (''data'', JObj [(''rowCount'', JNum 1)])])))
     = JObj [(''rowCount'', JNum 1)] \<and>
   lastError (ws_onmessage (initial_hook\<lparr>lastError := JObj [(''message'', JStr ''boom'')]\<rparr>) 0
      (Some (JObj [(''type'', JStr ''query_result''), (''data'', JObj [(''rowCount'', JNum 1)])])))
     = JNull \<and>
   lastError (ws_onmessage (initial_hook\<lparr>lastResult := JObj [(''rowCount'', JNum 1)]\<rparr>) 0
      (Some (JObj [(''type'', JStr ''query_error''), (''error'', JObj [(''message'', JStr ''boom'')])])))
     = JObj [(''message'', JStr ''boom'')] \<and>
   lastResult (ws_onmessage (initial_hook\<lparr>lastResult := JObj [(''rowCount'', JNum 1)]\<rparr>) 0
      (Some (JObj [(''type'', JStr ''query_error''), (''error'', JObj [(''message'', JStr ''boom'')])])))
     = JNull"
  using C10_outcome_replaces_previous
          [of "[(''type'', JStr ''query_result''), (''data'', JObj [(''rowCount'', JNum 1)])]"
              "initial_hook\<lparr>lastError := JObj [(''message'', JStr ''boom'')]\<rparr>" 0
              "[(''rowCount'', JNum 1)]"]
        C10_outcome_replaces_previous
          [of "[(''type'', JStr ''query_error''), (''error'', JObj [(''message'', JStr ''boom'')])]"
              "initial_hook\<lparr>lastResult := JObj [(''rowCount'', JNum 1)]\<rparr>" 0]
  by (simp add: js_or_def)

section \<open>Properties of the TLS connections\<close>

lemma split_colon_nonempty: "split_colon s \<noteq> []"
  by (induction s) (auto split: list.splits)

lemma split_colon_hd: "split_colon s ! 0 = takeWhile (\<lambda>c. c \<noteq> CHR '':'') s"
  by (induction s) (auto split: list.splits simp: split_colon_nonempty)

lemma split_colon_second:
  "CHR '':'' \<in> set s \<Longrightarrow>
   split_colon s ! 1 = takeWhile (\<lambda>c. c \<noteq> CHR '':'') (tl (dropWhile (\<lambda>c. c \<noteq> CHR '':'') s))"
proof (induction s)
  case Nil
  then show ?case by simp
next
  case (Cons c cs)
  show ?case
  proof (cases "c = CHR '':''")
    case True
    then show ?thesis using split_colon_hd [of cs] by simp
  next
    case False
    with Cons.prems have "CHR '':'' \<in> set cs" by simp
    with Cons.IH False show ?thesis
      using split_colon_nonempty [of cs] by (cases "split_colon cs") auto
  qed
qed

lemma isDigit_not_ws: "isDigit c \<Longrightarrow> \<not> isWhiteSpace c"
  by (auto simp add: isDigit_def isWhiteSpace_def)

lemma sign_not_ws: "\<not> isWhiteSpace CHR ''-''" "\<not> isWhiteSpace CHR ''+''"
  by (simp_all add: isWhiteSpace_def)

lemma sign_not_digit: "\<not> isDigit CHR ''-''" "\<not> isDigit CHR ''+''"
  by (simp_all add: isDigit_def)

lemma takeWhile_all: "list_all P xs \<Longrightarrow> takeWhile P xs = xs"
  by (induction xs) auto

lemma parseInt10_None_iff:
  "parseInt10 s = None \<longleftrightarrow>
     (let S = dropWhile isWhiteSpace s;
          S' = (case S of c # r \<Rightarrow> if c = CHR ''-'' \<or> c = CHR ''+'' then r else S | [] \<Rightarrow> S)
      in case S' of [] \<Rightarrow> True | c # _ \<Rightarrow> \<not> isDigit c)"
  by (auto simp add: parseInt10_def Let_def split: list.splits)

lemma parseInt10_valid:
  assumes "spec_valid_integer seg"
  shows "parseInt10 seg \<noteq> None"
proof (cases seg)
  case Nil
  with assms show ?thesis by (simp add: spec_valid_integer_def)
next
  case (Cons c r)
  show ?thesis
  proof (cases "c = CHR ''-'' \<or> c = CHR ''+''")
    case True
    with assms Cons obtain d ds where r: "r = d # ds" "isDigit d"
      by (cases r) (auto simp add: spec_valid_integer_def)
    from True Cons r show ?thesis
      using sign_not_ws by (auto simp add: parseInt10_def Let_def)
  next
    case False
    with assms Cons have "isDigit c" by (auto simp add: spec_valid_integer_def)
    with False Cons show ?thesis
      using isDigit_not_ws [of c] by (auto simp add: parseInt10_def Let_def)
  qed
qed

lemma parseInt10_all_digits:
  assumes "seg \<noteq> []" "list_all isDigit seg"
  shows "parseInt10 seg =
           (if digitsValue seg \<le> 2 ^ 53 then Some (Exact (int (digitsValue seg)))
            else Some Imprecise)"
proof -
  from assms obtain c r where seg: "seg = c # r" "isDigit c" by (cases seg) auto
  then have c: "\<not> isWhiteSpace c" "c \<noteq> CHR ''-''" "c \<noteq> CHR ''+''"
    using isDigit_not_ws sign_not_digit by auto
  have tw: "takeWhile isDigit (c # r) = c # r"
    using assms(2) seg(1) by (simp add: takeWhile_all)
  show ?thesis
    unfolding parseInt10_def seg(1) using c by (simp add: tw Let_def del: takeWhile.simps)
qed

lemma createRelay_no_colon:
  "CHR '':'' \<notin> set rh \<Longrightarrow> cfg_relayHost cfg = rh \<Longrightarrow>
   map host (fst (createRelayConnection cfg net)) = [Some rh] \<and>
   map port (fst (createRelayConnection cfg net)) = [Some (Exact 8443)]"
  by (simp add: createRelayConnection_def parseRelayHost_def Let_def split: tls_outcome.splits)

lemma createRelay_bad_port:
  "CHR '':'' \<in> set rh \<Longrightarrow> cfg_relayHost cfg = rh \<Longrightarrow> parseInt10 (split_colon rh ! 1) = None \<Longrightarrow>
   createRelayConnection cfg net = ([], [], Inl (Error (''Invalid port in relay host: '' @ rh)))"
  by (simp add: createRelayConnection_def parseRelayHost_def Let_def)

lemma createRelay_port:
  "CHR '':'' \<in> set rh \<Longrightarrow> cfg_relayHost cfg = rh \<Longrightarrow> parseInt10 (split_colon rh ! 1) = Some p \<Longrightarrow>
   map host (fst (createRelayConnection cfg net)) = [Some (split_colon rh ! 0)] \<and>
   map port (fst (createRelayConnection cfg net)) = [Some p]"
  by (simp add: createRelayConnection_def parseRelayHost_def Let_def
      split: tls_outcome.splits js_number.splits)

text \<open>
  Claim C5, as stated, fails: the port segment \<open>8443abc\<close> of the address
  \<open>relay:8443abc\<close> is not a valid integer, yet \<open>createRelayConnection\<close> does not
  fail: \<open>parseInt\<close> reads the leading digits, \<open>tls.connect\<close> is called with port
  8443, and the socket is returned.
\<close>

theorem C5_counterexample:
  "\<not> spec_valid_integer ''8443abc'' \<and>
   split_colon ''relay:8443abc'' ! 1 = ''8443abc'' \<and>
   map port (fst (createRelayConnection (relay_cfg ''relay:8443abc'')
                    (\<lambda>_. HandshakeDone (ok_handshake\<lparr>negotiatedAlpn := None\<rparr>))))
     = [Some (Exact 8443)] \<and>
   \<not> isl (snd (snd (createRelayConnection (relay_cfg ''relay:8443abc'')
                       (\<lambda>_. HandshakeDone (ok_handshake\<lparr>negotiatedAlpn := None\<rparr>)))))"
  by (simp add: spec_valid_integer_def isDigit_def createRelayConnection_def parseRelayHost_def
      relay_cfg_def ok_handshake_def tls_connect_def parseInt10_def isWhiteSpace_def
      digitsValue_def Let_def)

text \<open>
  Claim C5, amended. An address without a colon uses port 8443. An address with a
  colon makes \<open>createRelayConnection\<close> fail with the error "Invalid port in relay
  host", before any \<open>tls.connect\<close> call, exactly when \<open>parseInt\<close> of its second
  colon-separated segment is \<open>NaN\<close>: when, after leading white space and one optional
  sign, the segment does not start with a decimal digit. Otherwise the number that
  \<open>parseInt\<close> reads from the segment's leading digits is the port of the one
  \<open>tls.connect\<close> call, whatever follows the digits; in particular every valid integer
  is accepted, and a segment of digits only gives its decimal value when that is at
  most 2 to the power 53 (beyond it, the double that \<open>parseInt\<close> rounds it to).
\<close>

theorem C5_relay_address_amended:
  "(CHR '':'' \<notin> set rh \<longrightarrow>
      map host (fst (createRelayConnection (relay_cfg rh) net)) = [Some rh] \<and>
      map port (fst (createRelayConnection (relay_cfg rh) net)) = [Some (Exact 8443)]) \<and>
   (CHR '':'' \<in> set rh \<and> parseInt10 (split_colon rh ! 1) = None \<longrightarrow>
      createRelayConnection (relay_cfg rh) net =
        ([], [], Inl (Error (''Invalid port in relay host: '' @ rh)))) \<and>
   (CHR '':'' \<in> set rh \<and> parseInt10 (split_colon rh ! 1) = Some p \<longrightarrow>
      map host (fst (createRelayConnection (relay_cfg rh) net)) = [Some (split_colon rh ! 0)] \<and>
      map port (fst (createRelayConnection (relay_cfg rh) net)) = [Some p]) \<and>
   (parseInt10 seg = None \<longleftrightarrow>
      (let S = dropWhile isWhiteSpace seg;
           S' = (case S of c # r \<Rightarrow> if c = CHR ''-'' \<or> c = CHR ''+'' then r else S | [] \<Rightarrow> S)
       in case S' of [] \<Rightarrow> True | c # _ \<Rightarrow> \<not> isDigit c)) \<and>
   (spec_valid_integer seg \<longrightarrow> parseInt10 seg \<noteq> None) \<and>
   (seg \<noteq> [] \<and> list_all isDigit seg \<and> digitsValue seg \<le> 2 ^ 53 \<longrightarrow>
      parseInt10 seg = Some (Exact (int (digitsValue seg)))) \<and>
   (seg \<noteq> [] \<and> list_all isDigit seg \<and> 2 ^ 53 < digitsValue seg \<longrightarrow>
      parseInt10 seg = Some Imprecise)"
  using createRelay_no_colon [of rh "relay_cfg rh" net]
        createRelay_bad_port [of rh "relay_cfg rh" net]
        createRelay_port [of rh "relay_cfg rh" p net]
        parseInt10_None_iff [of seg] parseInt10_valid [of seg] parseInt10_all_digits [of seg]
  by (simp add: relay_cfg_def)

theorem C5_relay_address_amended_witness:
  "map port (fst (createRelayConnection (relay_cfg ''relay'') (\<lambda>_. NoAnswer))) = [Some (Exact 8443)] \<and>
   createRelayConnection (relay_cfg ''relay:x1'') (\<lambda>_. NoAnswer) =
     ([], [], Inl (Error ''Invalid port in relay host: relay:x1'')) \<and>
   map host (fst (createRelayConnection (relay_cfg ''relay:9000'') (\<lambda>_. NoAnswer))) = [Some ''relay''] \<and>
   map port (fst (createRelayConnection (relay_cfg ''relay:9000'') (\<lambda>_. NoAnswer))) = [Some (Exact 9000)] \<and>
   parseInt10 ''9000'' = Some (Exact 9000) \<and>
   parseInt10 ''99999999999999999999999'' = Some Imprecise"
  using C5_relay_address_amended [where rh = "''relay''" and net = "\<lambda>_. NoAnswer"]
        C5_relay_address_amended [where rh = "''relay:x1''" and net = "\<lambda>_. NoAnswer"]
        C5_relay_address_amended [where rh = "''relay:9000''" and net = "\<lambda>_. NoAnswer"
          and p = "Exact 9000" and seg = "''9000''"]
        C5_relay_address_amended [where seg = "''99999999999999999999999''"]
  by (simp add: parseInt10_def isWhiteSpace_def isDigit_def digitsValue_def)

lemma tls_connect_authorized:
  "tls_connect opts net = SecureConnect i \<Longrightarrow> rejectUnauthorized opts \<Longrightarrow> authorized i"
  by (auto simp add: tls_connect_def split: tls_network.splits option.splits)

lemma gw_untrusted:
  "net (gatewayTlsOptions relayConn cfg) = HandshakeDone h \<Longrightarrow> verifyError h = Some m \<Longrightarrow>
   snd (snd (createGatewayConnection relayConn cfg net)) =
     Inl (Error (''Failed to connect to gateway: '' @ m))"
  by (simp add: createGatewayConnection_def tls_connect_def gatewayTlsOptions_def Let_def)

lemma gw_mismatch:
  "net (gatewayTlsOptions relayConn cfg) = HandshakeDone h \<Longrightarrow> verifyError h = None \<Longrightarrow>
   negotiatedAlpn h \<noteq> Some ALPN_PAM_PROXY \<Longrightarrow>
   createGatewayConnection relayConn cfg net =
     ([gatewayTlsOptions relayConn cfg],
      [logger Debug [] ''Creating gateway mTLS connection over relay''],
      Inl (Error (''Gateway ALPN protocol mismatch: expected '' @ [CHR 0x27] @
                  ALPN_PAM_PROXY @ [CHR 0x27] @ '', got '' @ [CHR 0x27] @
                  or_default (negotiatedAlpn h) ''none'' @ [CHR 0x27])))"
  by (simp add: createGatewayConnection_def tls_connect_def Let_def)

lemma gw_no_handle:
  "net (gatewayTlsOptions relayConn cfg) = HandshakeDone h \<Longrightarrow>
   negotiatedAlpn h \<noteq> Some ALPN_PAM_PROXY \<Longrightarrow>
   isl (snd (snd (createGatewayConnection relayConn cfg net)))"
  by (simp add: createGatewayConnection_def tls_connect_def Let_def split: option.splits)

lemma gw_handle:
  "snd (snd (createGatewayConnection relayConn cfg net)) = Inr sock \<Longrightarrow>
   authorized (info sock) \<and> alpnProtocol (info sock) = Some ALPN_PAM_PROXY \<and>
   socket (options sock) = Some relayConn"
  by (auto simp add: createGatewayConnection_def gatewayTlsOptions_def Let_def
      split: tls_outcome.splits if_splits)

text \<open>
  Claim C8. A gateway handshake completes when the peer's certificate verifies: the
  connection is made with \<open>rejectUnauthorized: true\<close>, so for any other peer
  \<open>tls.connect\<close> raises the socket's \<open>error\<close> and no protocol is ever read. For
  every gateway connection attempt whose handshake completes with a negotiated
  application protocol that is not exactly \<open>infisical-pam-proxy\<close> (none negotiated
  included), \<open>createGatewayConnection\<close> fails with the error "Gateway ALPN protocol
  mismatch", which names the expected protocol and the actual one (\<open>none\<close> when
  there is none), and no socket is returned. No socket is returned either when the
  peer is not trusted; a socket that is returned belongs to an authorized peer that
  negotiated exactly \<open>infisical-pam-proxy\<close>, over the relay connection given.
\<close>

theorem C8_protocol_mismatch:
  "(net (gatewayTlsOptions relayConn cfg) = HandshakeDone h \<and> verifyError h = None \<and>
    negotiatedAlpn h \<noteq> Some ALPN_PAM_PROXY \<longrightarrow>
      snd (snd (createGatewayConnection relayConn cfg net)) =
        Inl (Error (''Gateway ALPN protocol mismatch: expected '' @ [CHR 0x27] @
                    ''infisical-pam-proxy'' @ [CHR 0x27] @ '', got '' @ [CHR 0x27] @
                    or_default (negotiatedAlpn h) ''none'' @ [CHR 0x27]))) \<and>
   (net (gatewayTlsOptions relayConn cfg) = HandshakeDone h \<and>
    negotiatedAlpn h \<noteq> Some ALPN_PAM_PROXY \<longrightarrow>
      isl (snd (snd (createGatewayConnection relayConn cfg net)))) \<and>
   (snd (snd (createGatewayConnection relayConn cfg net)) = Inr sock \<longrightarrow>
      authorized (info sock) \<and> alpnProtocol (info sock) = Some ALPN_PAM_PROXY \<and>
      socket (options sock) = Some relayConn)"
  using gw_mismatch [of net relayConn cfg h] gw_no_handle [of net relayConn cfg h]
        gw_handle [of relayConn cfg net sock]
  by (simp add: ALPN_PAM_PROXY_def)

theorem C8_protocol_mismatch_witness:
  "snd (snd (createGatewayConnection relay0 gateway_cfg
               (\<lambda>_. HandshakeDone (ok_handshake\<lparr>negotiatedAlpn := Some ''h2''\<rparr>)))) =
     Inl (Error (''Gateway ALPN protocol mismatch: expected '' @ [CHR 0x27] @
                 ''infisical-pam-proxy'' @ [CHR 0x27] @ '', got '' @ [CHR 0x27] @
                 ''h2'' @ [CHR 0x27])) \<and>
   snd (snd (createGatewayConnection relay0 gateway_cfg
               (\<lambda>_. HandshakeDone (ok_handshake\<lparr>negotiatedAlpn := None\<rparr>)))) =
     Inl (Error (''Gateway ALPN protocol mismatch: expected '' @ [CHR 0x27] @
                 ''infisical-pam-proxy'' @ [CHR 0x27] @ '', got '' @ [CHR 0x27] @
                 ''none'' @ [CHR 0x27])) \<and>
   isl (snd (snd (createGatewayConnection relay0 gateway_cfg (\<lambda>_. HandshakeDone untrusted_handshake)))) \<and>
   snd (snd (createGatewayConnection relay0 gateway_cfg (\<lambda>_. HandshakeDone ok_handshake))) = Inr gateway0"
proof -
  have ok: "snd (snd (createGatewayConnection relay0 gateway_cfg (\<lambda>_. HandshakeDone ok_handshake))) = Inr gateway0"
    by (simp add: createGatewayConnection_def gatewayTlsOptions_def tls_connect_def gateway_cfg_def
        gateway0_def ok_info_def ok_handshake_def ALPN_PAM_PROXY_def Let_def)
  from C8_protocol_mismatch
         [where h = "ok_handshake\<lparr>negotiatedAlpn := Some ''h2''\<rparr>" and relayConn = relay0
            and cfg = gateway_cfg and sock = gateway0
            and net = "\<lambda>_. HandshakeDone (ok_handshake\<lparr>negotiatedAlpn := Some ''h2''\<rparr>)"]
       C8_protocol_mismatch
         [where h = "ok_handshake\<lparr>negotiatedAlpn := None\<rparr>" and relayConn = relay0
            and cfg = gateway_cfg and sock = gateway0
            and net = "\<lambda>_. HandshakeDone (ok_handshake\<lparr>negotiatedAlpn := None\<rparr>)"]
       C8_protocol_mismatch
         [where h = untrusted_handshake and relayConn = relay0
            and cfg = gateway_cfg and sock = gateway0
            and net = "\<lambda>_. HandshakeDone untrusted_handshake"]
       ok
  show ?thesis
    by (simp add: ok_handshake_def untrusted_handshake_def ALPN_PAM_PROXY_def or_default_def)
qed

section \<open>Properties of the query execution\<close>

lemma Array_slice0_take:
  "0 \<le> e \<Longrightarrow> Array_slice0 xs e = take (nat \<lfloor>e\<rfloor>) xs"
  by (auto simp add: Array_slice0_def ToInteger_def Let_def min_def)

lemma executeQuery_success:
  assumes "unsafe_outcome env = Inr result"
  shows "snd (snd (executeQueryThroughGateway gw qry creds opts env)) =
     Inr \<lparr>qr_rows = Array_slice0 (res_rows result) (options_maxRows opts),
          qr_rowCount = (case res_count result of None \<Rightarrow> length (res_rows result) | Some c \<Rightarrow> c),
          qr_fields = map (\<lambda>c. \<lparr>fieldName = col_name c, dataType = col_type c\<rparr>)
                          (case res_columns result of None \<Rightarrow> [] | Some cs \<Rightarrow> cs),
          qr_executionTime = now_end env - now_start env\<rparr>"
  using assms
  by (simp add: executeQueryThroughGateway_def executeQuery_settle_def executeQuery_start_def
      Let_def split: prod.splits)

lemma executeQuery_failure:
  assumes "unsafe_outcome env = Inl err"
  shows "snd (snd (executeQueryThroughGateway gw qry creds opts env)) =
           Inl (Error (''Query execution failed: '' @ error_message err))"
    and "logger ErrorLevel [(''database'', LStr (database creds)),
                            (''error'', LStr (error_message err)),
                            (''queryPreview'', LStr (take 100 qry))]
           ''Query execution failed''
         \<in> set (fst (snd (executeQueryThroughGateway gw qry creds opts env)))"
  using assms
  by (simp_all add: executeQueryThroughGateway_def executeQuery_settle_def executeQuery_start_def
      substring0_def Let_def split: prod.splits)

text \<open>
  Claim C3, as stated, fails. An \<open>UPDATE\<close> changes three rows and returns none: the
  driver's result is an empty array whose \<open>count\<close> is 3. The call returns no rows and
  \<open>rowCount = 3\<close>. Whichever of the two numbers is taken as the actual row count,
  the claim fails: with 3, the length of the rows (0) is not \<open>min 3 1000\<close>; with
  the number of rows returned (0), \<open>rowCount\<close> is not it.
\<close>

theorem C3_counterexample:
  "snd (snd (executeQueryThroughGateway (Some gateway0) ''UPDATE t SET x = 1'' creds0 None update_env))
     = Inr \<lparr>qr_rows = [], qr_rowCount = 3, qr_fields = [], qr_executionTime = 7\<rparr> \<and>
   unsafe_outcome update_env = Inr \<lparr>res_rows = [], res_count = Some 3, res_columns = None\<rparr> \<and>
   length ([] :: json list) \<noteq> min 3 (nat \<lfloor>options_maxRows None\<rfloor>) \<and>
   (3::nat) \<noteq> length ([] :: json list)"
  by (simp add: executeQueryThroughGateway_def executeQuery_settle_def executeQuery_start_def
      update_env_def Array_slice0_def ToInteger_def options_maxRows_def Let_def)

text \<open>
  Claim C3, amended. For every successful query execution, with row cap \<open>maxRows\<close>
  (1000 when the options or the property are omitted): when the cap is not negative,
  the returned rows are the first \<open>min n \<lfloor>maxRows\<rfloor>\<close> of the \<open>n\<close> rows in the
  driver's result (\<open>min n maxRows\<close> for an integer cap); \<open>rowCount\<close> is the
  driver's \<open>count\<close> property when the result has one and \<open>n\<close> otherwise, so it is
  the untruncated number of returned rows whenever the driver reports no count or a
  count equal to it.
\<close>

theorem C3_rows_and_count_amended:
  assumes "unsafe_outcome env = Inr result"
  shows "\<exists>r. snd (snd (executeQueryThroughGateway gw qry creds opts env)) = Inr r \<and>
     (0 \<le> options_maxRows opts \<longrightarrow>
        qr_rows r = take (nat \<lfloor>options_maxRows opts\<rfloor>) (res_rows result) \<and>
        length (qr_rows r) = min (length (res_rows result)) (nat \<lfloor>options_maxRows opts\<rfloor>)) \<and>
     (options_maxRows opts = of_nat n \<longrightarrow>
        length (qr_rows r) = min (length (res_rows result)) n) \<and>
     qr_rowCount r =
       (case res_count result of None \<Rightarrow> length (res_rows result) | Some c \<Rightarrow> c) \<and>
     (res_count result = None \<or> res_count result = Some (length (res_rows result)) \<longrightarrow>
        qr_rowCount r = length (res_rows result)) \<and>
     options_maxRows None = 1000 \<and>
     options_maxRows (Some \<lparr>maxRows = None, timeout = t\<rparr>) = 1000 \<and>
     options_maxRows (Some \<lparr>maxRows = Some m, timeout = t\<rparr>) = m"
proof -
  let ?r = "\<lparr>qr_rows = Array_slice0 (res_rows result) (options_maxRows opts),
          qr_rowCount = (case res_count result of None \<Rightarrow> length (res_rows result) | Some c \<Rightarrow> c),
          qr_fields = map (\<lambda>c. \<lparr>fieldName = col_name c, dataType = col_type c\<rparr>)
                          (case res_columns result of None \<Rightarrow> [] | Some cs \<Rightarrow> cs),
          qr_executionTime = now_end env - now_start env\<rparr>"
  have r: "snd (snd (executeQueryThroughGateway gw qry creds opts env)) = Inr ?r"
    using assms by (rule executeQuery_success)
  have a: "0 \<le> options_maxRows opts \<longrightarrow>
        qr_rows ?r = take (nat \<lfloor>options_maxRows opts\<rfloor>) (res_rows result) \<and>
        length (qr_rows ?r) = min (length (res_rows result)) (nat \<lfloor>options_maxRows opts\<rfloor>)"
    by (simp add: Array_slice0_take)
  have b: "options_maxRows opts = of_nat n \<longrightarrow>
        length (qr_rows ?r) = min (length (res_rows result)) n"
    by (simp add: Array_slice0_take)
  have c: "qr_rowCount ?r =
       (case res_count result of None \<Rightarrow> length (res_rows result) | Some c \<Rightarrow> c)"
    by simp
  have d: "res_count result = None \<or> res_count result = Some (length (res_rows result)) \<longrightarrow>
        qr_rowCount ?r = length (res_rows result)"
    by auto
  have e: "options_maxRows None = 1000"
     "options_maxRows (Some \<lparr>maxRows = None, timeout = t\<rparr>) = 1000"
     "options_maxRows (Some \<lparr>maxRows = Some m, timeout = t\<rparr>) = m"
    by (simp_all add: options_maxRows_def)
  from r a b c d e show ?thesis by blast
qed

theorem C3_rows_and_count_amended_witness:
  "snd (snd (executeQueryThroughGateway (Some gateway0) ''SELECT n FROM t'' creds0
               (Some \<lparr>maxRows = Some 2, timeout = None\<rparr>) select_env)) =
     Inr \<lparr>qr_rows = [JObj [(''n'', JNum 1)], JObj [(''n'', JNum 2)]], qr_rowCount = 3,
          qr_fields = [\<lparr>fieldName = ''n'', dataType = 23\<rparr>], qr_executionTime = 7\<rparr>"
proof -
  have o: "unsafe_outcome select_env =
     Inr \<lparr>res_rows = [JObj [(''n'', JNum 1)], JObj [(''n'', JNum 2)], JObj [(''n'', JNum 3)]],
          res_count = Some 3, res_columns = Some [\<lparr>col_name = ''n'', col_type = 23\<rparr>]\<rparr>"
    by (simp add: select_env_def)
  have m: "options_maxRows (Some \<lparr>maxRows = Some 2, timeout = None\<rparr>) = 2"
    by (simp add: options_maxRows_def)
  from C3_rows_and_count_amended [OF o, of "Some gateway0" "''SELECT n FROM t''" creds0
         "Some \<lparr>maxRows = Some 2, timeout = None\<rparr>" 2]
  obtain r where r: "snd (snd (executeQueryThroughGateway (Some gateway0) ''SELECT n FROM t'' creds0
               (Some \<lparr>maxRows = Some 2, timeout = None\<rparr>) select_env)) = Inr r"
      and rows: "qr_rows r = [JObj [(''n'', JNum 1)], JObj [(''n'', JNum 2)]]"
      and cnt: "qr_rowCount r = 3"
    by (auto simp add: m)
  have "qr_fields r = [\<lparr>fieldName = ''n'', dataType = 23\<rparr>] \<and> qr_executionTime r = 7"
    using r executeQuery_success [OF o, of "Some gateway0" "''SELECT n FROM t''" creds0
         "Some \<lparr>maxRows = Some 2, timeout = None\<rparr>"]
    by (auto simp add: select_env_def)
  with r rows cnt show ?thesis by simp
qed

text \<open>
  Claim C6, as stated, fails. The database rejects the login with a message that names
  the user. The error \<open>executeQueryThroughGateway\<close> raises is that message behind
  the prefix "Query execution failed: ": it does not contain the preview of the query,
  and it contains the database username.
\<close>

theorem C6_counterexample:
  "snd (snd (executeQueryThroughGateway (Some gateway0) ''SELECT secret FROM vault'' creds0 None
               auth_failure_env)) =
     Inl (Error ''Query execution failed: password authentication failed for user alice'') \<and>
   \<not> String_includes ''Query execution failed: password authentication failed for user alice''
        (substring0 ''SELECT secret FROM vault'' 100) \<and>
   String_includes ''Query execution failed: password authentication failed for user alice''
        (username creds0)"
  by (simp add: executeQueryThroughGateway_def executeQuery_settle_def executeQuery_start_def
      auth_failure_env_def creds0_def String_includes_def substring0_def sublist_code Let_def)

text \<open>
  Claim C6, amended. For every failing query execution, the error that
  \<open>executeQueryThroughGateway\<close> raises has as its message "Query execution failed: "
  followed by the message of the cause (by \<open>String(cause)\<close> when the cause is not an
  \<open>Error\<close>), unchanged and with nothing else. The preview, the first 100 characters
  of the query text, is written to the "Query execution failed" entry of the error
  log, next to the database name and the cause's message.
\<close>

theorem C6_error_and_preview_amended:
  assumes "unsafe_outcome env = Inl err"
  shows "snd (snd (executeQueryThroughGateway gw qry creds opts env)) =
           Inl (Error (''Query execution failed: '' @ error_message err)) \<and>
         logger ErrorLevel [(''database'', LStr (database creds)),
                            (''error'', LStr (error_message err)),
                            (''queryPreview'', LStr (substring0 qry 100))]
           ''Query execution failed''
           \<in> set (fst (snd (executeQueryThroughGateway gw qry creds opts env))) \<and>
         substring0 qry 100 = take 100 qry \<and>
         length (substring0 qry 100) = min (length qry) 100"
  using executeQuery_failure [OF assms]
  by (simp add: substring0_def)

theorem C6_error_and_preview_amended_witness:
  "snd (snd (executeQueryThroughGateway (Some gateway0) ''SELECT secret FROM vault'' creds0 None
               auth_failure_env)) =
     Inl (Error (''Query execution failed: '' @ ''password authentication failed for user alice'')) \<and>
   logger ErrorLevel [(''database'', LStr ''appdb''),
                      (''error'', LStr ''password authentication failed for user alice''),
                      (''queryPreview'', LStr ''SELECT secret FROM vault'')]
     ''Query execution failed''
     \<in> set (fst (snd (executeQueryThroughGateway (Some gateway0) ''SELECT secret FROM vault''
                         creds0 None auth_failure_env)))"
proof -
  have o: "unsafe_outcome auth_failure_env =
             Inl (ErrorObject ''password authentication failed for user alice'')"
    by (simp add: auth_failure_env_def)
  from C6_error_and_preview_amended
         [OF o, where gw = "Some gateway0" and qry = "''SELECT secret FROM vault''"
            and creds = creds0 and opts = None]
  show ?thesis by (simp add: creds0_def substring0_def)
qed

section \<open>Properties of the session channel\<close>

text \<open>The channel used at concrete inputs is one that the route handler establishes.\<close>

lemma openChannel_established: "openChannel ''s1'' store0 open_env0 = Established channel0"
  by (simp add: openChannel_def store0_def open_env0_def channel0_def bundle0_def
      SessionAccessDataStore_get_def createRelayConnection_def parseRelayHost_def
      parseInt10_def isWhiteSpace_def isDigit_def digitsValue_def tls_connect_def
      createGatewayConnection_def gatewayTlsOptions_def ALPN_PAM_PROXY_def ok_handshake_def
      ok_info_def relay0_def gateway0_def log_opt_def log_number_def logger_def Let_def)

lemma validate_seleC: "message_validate msg_seleC = Inr \<lparr>msg_query = ''SELEC 1'', msg_options = None\<rparr>"
  by (simp add: message_validate_def msg_seleC_def WebSocketMessageSchema_parse_def zod_options_def)

lemma validate_select1: "message_validate msg_select1 = Inr \<lparr>msg_query = ''SELECT 1'', msg_options = None\<rparr>"
  by (simp add: message_validate_def msg_select1_def WebSocketMessageSchema_parse_def zod_options_def)

lemma validate_select2:
  "message_validate msg_select2 =
     Inr \<lparr>msg_query = ''SELECT 2'', msg_options = Some \<lparr>maxRows = Some 10, timeout = None\<rparr>\<rparr>"
  by (simp add: message_validate_def msg_select2_def WebSocketMessageSchema_parse_def
      zod_options_def zod_optional_number_def)

lemma on_message_failure:
  assumes "message_validate data = Inr v" "unsafe_outcome (driver_outcome ch env) = Inl err"
  shows "ch_frames (on_message ch data env) = ch_frames ch"
    and "ch_escaped (on_message ch data env) =
           ch_escaped ch @ [Error (''Query execution failed: '' @ error_message err)]"
  using assms
  by (simp_all add: on_message_def executeQueryThroughGateway_def executeQuery_settle_def
      Let_def split: prod.splits)

text \<open>
  Claim C1, at a failing query. On the established channel the client submits
  \<open>SELEC 1\<close>, which is a valid message, and the database rejects it with a syntax
  error. The handler sends nothing: the only frame on the socket is still the
  \<open>connected\<close> one, and no \<open>query_error\<close> message exists; the error of
  \<open>executeQueryThroughGateway\<close> leaves the handler as the rejection of its promise.
\<close>

theorem C1_failed_query_sends_nothing:
  "openChannel ''s1'' store0 open_env0 = Established channel0 \<and>
   message_validate msg_seleC = Inr \<lparr>msg_query = ''SELEC 1'', msg_options = None\<rparr> \<and>
   ch_frames (on_message channel0 msg_seleC syntax_error_env) = [Send connected_message] \<and>
   ch_escaped (on_message channel0 msg_seleC syntax_error_env) =
     [Error ''Query execution failed: syntax error at or near SELEC'']"
proof -
  have f: "unsafe_outcome (driver_outcome channel0 syntax_error_env) =
             Inl (ErrorObject ''syntax error at or near SELEC'')"
    by (simp add: driver_outcome_def syntax_error_env_def channel0_def)
  note bad = on_message_failure [OF validate_seleC f]
  from openChannel_established validate_seleC bad show ?thesis
    by (simp add: channel0_def)
qed

lemma step_message_valid:
  assumes "message_validate data = Inr v"
  shows "ch_frames (step ch (Message data)) = ch_frames ch"
    and "ch_escaped (step ch (Message data)) = ch_escaped ch"
    and "ch_executing (step ch (Message data)) = ch_executing ch @ [v]"
    and "ch_gatewayConn (step ch (Message data)) = ch_gatewayConn ch"
  using assms by (simp_all add: on_message_start_def Let_def split: prod.splits)

text \<open>
  Claim C2, as stated, fails. \<open>SELECT 1\<close> is executing when \<open>SELECT 2\<close> arrives:
  nothing is sent in answer to the second message (no busy error, no frame at all) and
  no error is raised; the second execution is started while the first one is still
  in flight, over the same gateway connection.
\<close>

theorem C2_counterexample:
  "ch_executing (run channel0 [Message msg_select1]) =
     [\<lparr>msg_query = ''SELECT 1'', msg_options = None\<rparr>] \<and>
   ch_frames (run channel0 [Message msg_select1, Message msg_select2]) = [Send connected_message] \<and>
   ch_escaped (run channel0 [Message msg_select1, Message msg_select2]) = [] \<and>
   ch_executing (run channel0 [Message msg_select1, Message msg_select2]) =
     [\<lparr>msg_query = ''SELECT 1'', msg_options = None\<rparr>,
      \<lparr>msg_query = ''SELECT 2'', msg_options = Some \<lparr>maxRows = Some 10, timeout = None\<rparr>\<rparr>]"
  using step_message_valid [OF validate_select1, of channel0]
        step_message_valid [OF validate_select2, of "step channel0 (Message msg_select1)"]
  by (simp add: run_def channel0_def)

text \<open>
  Claim C2, amended. For every channel, whatever is executing on it, a valid
  \<open>execute_query\<close> message that arrives before the queries in flight complete is not
  rejected: nothing is sent (no busy error) and nothing is raised on its arrival,
  and its execution is started at once, next to the ones in flight: the new driver
  client is given the same gateway connection.
\<close>

theorem C2_overlapping_queries_amended:
  assumes "message_validate data = Inr v"
  shows "ch_frames (step ch (Message data)) = ch_frames ch \<and>
     ch_escaped (step ch (Message data)) = ch_escaped ch \<and>
     ch_executing (step ch (Message data)) = ch_executing ch @ [v] \<and>
     ch_gatewayConn (step ch (Message data)) = ch_gatewayConn ch \<and>
     pg_socket (fst (executeQuery_start (ch_gatewayConn ch) (msg_query v)
                       (credentials (ch_accessData ch)) (msg_options v))) = ch_gatewayConn ch"
  using step_message_valid [OF assms, of ch] by (simp add: executeQuery_start_def Let_def)

theorem C2_overlapping_queries_amended_witness:
  "ch_frames (step (channel0\<lparr>ch_executing := [\<lparr>msg_query = ''SELECT 1'', msg_options = None\<rparr>]\<rparr>)
                (Message msg_select2)) = [Send connected_message] \<and>
   ch_escaped (step (channel0\<lparr>ch_executing := [\<lparr>msg_query = ''SELECT 1'', msg_options = None\<rparr>]\<rparr>)
                 (Message msg_select2)) = [] \<and>
   ch_executing (step (channel0\<lparr>ch_executing := [\<lparr>msg_query = ''SELECT 1'', msg_options = None\<rparr>]\<rparr>)
                   (Message msg_select2)) =
     [\<lparr>msg_query = ''SELECT 1'', msg_options = None\<rparr>,
      \<lparr>msg_query = ''SELECT 2'', msg_options = Some \<lparr>maxRows = Some 10, timeout = None\<rparr>\<rparr>] \<and>
   ch_gatewayConn (step (channel0\<lparr>ch_executing := [\<lparr>msg_query = ''SELECT 1'', msg_options = None\<rparr>]\<rparr>)
                     (Message msg_select2)) = Some gateway0"
  using C2_overlapping_queries_amended
          [OF validate_select2,
           of "channel0\<lparr>ch_executing := [\<lparr>msg_query = ''SELECT 1'', msg_options = None\<rparr>]\<rparr>"]
  by (simp add: channel0_def)






end
